theory Spec2Isabelle
  imports Complex_Main
begin

section \<open>Runtime values shared by the edge functions\<close>

text \<open>
  Provider responses are untyped JSON in the source (\<open>any\<close>), so they are modelled
  as JSON values. \<open>Undefined\<close> is what reading an absent property gives. Numbers in
  provider responses are integers in this model. Strings are lists of 8-bit characters.
\<close>

datatype json =
    Undefined
  | Null
  | JBool bool
  | JNum int
  | JStr string
  | JArr "json list"
  | JObj "(string \<times> json) list"

text \<open>JavaScript truthiness, as used by \<open>!x\<close>, \<open>if (x)\<close> and \<open>x || y\<close>.\<close>

fun truthy :: "json \<Rightarrow> bool" where
  "truthy Undefined = False"
| "truthy Null = False"
| "truthy (JBool b) = b"
| "truthy (JNum n) = (n \<noteq> 0)"
| "truthy (JStr s) = (s \<noteq> [])"
| "truthy (JArr xs) = True"
| "truthy (JObj kvs) = True"

text \<open>\<open>x?.f\<close>: optional chaining never throws. \<open>JSON.parse\<close> keeps the last of
  several equal keys.\<close>

fun opt_field :: "json \<Rightarrow> string \<Rightarrow> json" where
  "opt_field (JObj kvs) f = (case map_of (rev kvs) f of None \<Rightarrow> Undefined | Some v \<Rightarrow> v)"
| "opt_field (JArr xs) f = (if f = ''length'' then JNum (int (length xs)) else Undefined)"
| "opt_field (JStr s) f = (if f = ''length'' then JNum (int (length s)) else Undefined)"
| "opt_field x f = Undefined"

text \<open>\<open>x.f\<close>: reading a property of \<open>undefined\<close> or \<open>null\<close> throws a TypeError.\<close>

definition type_error :: "string \<Rightarrow> string \<Rightarrow> string" where
  "type_error what f =
     ''Cannot read properties of '' @ what @ '' (reading '' @ [CHR 0x27] @ f @ [CHR 0x27] @ '')''"

fun field :: "json \<Rightarrow> string \<Rightarrow> string + json" where
  "field Undefined f = Inl (type_error ''undefined'' f)"
| "field Null f = Inl (type_error ''null'' f)"
| "field x f = Inr (opt_field x f)"

text \<open>\<open>x?.[0]\<close>: the first element of an array (or string), else \<open>undefined\<close>.\<close>

fun opt_first :: "json \<Rightarrow> json" where
  "opt_first (JArr xs) = (case xs of [] \<Rightarrow> Undefined | x # _ \<Rightarrow> x)"
| "opt_first (JStr s) = (case s of [] \<Rightarrow> Undefined | c # _ \<Rightarrow> JStr [c])"
| "opt_first (JObj kvs) = opt_field (JObj kvs) ''0''"
| "opt_first x = Undefined"

text \<open>\<open>x ?? d\<close>.\<close>

definition nullish :: "json \<Rightarrow> json \<Rightarrow> json" where
  "nullish x d = (if x = Undefined \<or> x = Null then d else x)"

subsection \<open>Decimal numerals and template interpolation\<close>

function digits :: "int \<Rightarrow> string" where
  "digits n = (if n < 10 then [char_of (48 + n)] else digits (n div 10) @ [char_of (48 + n mod 10)])"
  by pat_completeness auto
termination
  by (relation "measure nat") auto

declare digits.simps [simp del]

definition show_int :: "int \<Rightarrow> string" where
  "show_int i = (if i < 0 then CHR ''-'' # digits (- i) else digits i)"

text \<open>\<open>`${x}`\<close>: the string a value is interpolated as.\<close>

fun join_with :: "string \<Rightarrow> string list \<Rightarrow> string" where
  "join_with sep [] = []"
| "join_with sep [x] = x"
| "join_with sep (x # y # ys) = x @ sep @ join_with sep (y # ys)"

fun to_str :: "json \<Rightarrow> string" where
  "to_str Undefined = ''undefined''"
| "to_str Null = ''null''"
| "to_str (JBool b) = (if b then ''true'' else ''false'')"
| "to_str (JNum n) = show_int n"
| "to_str (JStr s) = s"
| "to_str (JArr xs) =
     join_with '','' (map (\<lambda>x. if x = Undefined \<or> x = Null then [] else to_str x) xs)"
| "to_str (JObj kvs) = ''[object Object]''"

subsection \<open>Whitespace and \<open>trim\<close>\<close>

definition is_space :: "char \<Rightarrow> bool" where
  "is_space c = (of_char c \<in> {9, 10, 11, 12, 13, 32, 160 :: nat})"

definition trim :: "string \<Rightarrow> string" where
  "trim s = rev (dropWhile is_space (rev (dropWhile is_space s)))"

text \<open>\<open>!x?.trim()\<close> for an optional string: absent, empty or only whitespace.\<close>

definition blank :: "string option \<Rightarrow> bool" where
  "blank x = (case x of None \<Rightarrow> True | Some s \<Rightarrow> trim s = [])"

subsection \<open>\<open>btoa\<close> and \<open>JSON.stringify\<close>\<close>

definition b64_alphabet :: string where
  "b64_alphabet = ''ABCDEFGHIJKLMNOPQRSTUVWXYZabcdefghijklmnopqrstuvwxyz0123456789+/''"

definition b64 :: "nat \<Rightarrow> char" where
  "b64 n = b64_alphabet ! (n mod 64)"

fun btoa :: "string \<Rightarrow> string" where
  "btoa [] = []"
| "btoa [a] =
     (let x = (of_char a :: nat) in [b64 (x div 4), b64 ((x mod 4) * 16), CHR ''='', CHR ''=''])"
| "btoa [a, b] =
     (let x = (of_char a :: nat); y = (of_char b :: nat)
      in [b64 (x div 4), b64 ((x mod 4) * 16 + y div 16), b64 ((y mod 16) * 4), CHR ''=''])"
| "btoa (a # b # c # rest) =
     (let x = (of_char a :: nat); y = (of_char b :: nat); z = (of_char c :: nat)
      in [b64 (x div 4), b64 ((x mod 4) * 16 + y div 16), b64 ((y mod 16) * 4 + z div 64),
          b64 (z mod 64)] @ btoa rest)"

text \<open>\<open>btoa(...).replace(/=/g, "").replace(/\+/g, "-").replace(/\//g, "_")\<close>.\<close>

definition base64url :: "string \<Rightarrow> string" where
  "base64url s =
     map (\<lambda>c. if c = CHR ''/'' then CHR ''_'' else c)
       (map (\<lambda>c. if c = CHR ''+'' then CHR ''-'' else c)
         (filter (\<lambda>c. c \<noteq> CHR ''='') (btoa s)))"

definition hex_digit :: "nat \<Rightarrow> char" where
  "hex_digit n = ''0123456789abcdef'' ! (n mod 16)"

definition json_escape :: "char \<Rightarrow> string" where
  "json_escape c =
     (let n = (of_char c :: nat) in
      if c = CHR 0x22 then [CHR 0x5C, CHR 0x22]
      else if c = CHR 0x5C then [CHR 0x5C, CHR 0x5C]
      else if n = 8 then [CHR 0x5C, CHR ''b'']
      else if n = 12 then [CHR 0x5C, CHR ''f'']
      else if n = 10 then [CHR 0x5C, CHR ''n'']
      else if n = 13 then [CHR 0x5C, CHR ''r'']
      else if n = 9 then [CHR 0x5C, CHR ''t'']
      else if n < 32 then [CHR 0x5C, CHR ''u'', CHR ''0'', CHR ''0'', hex_digit (n div 16), hex_digit n]
      else [c])"

definition json_quote :: "string \<Rightarrow> string" where
  "json_quote s = [CHR 0x22] @ concat (map json_escape s) @ [CHR 0x22]"

text \<open>\<open>JSON.stringify\<close> of a value. A property whose value is \<open>undefined\<close> is left
  out of an object; in an array it is printed as \<open>null\<close>.\<close>

fun stringify :: "json \<Rightarrow> string" where
  "stringify Undefined = ''undefined''"
| "stringify Null = ''null''"
| "stringify (JBool b) = (if b then ''true'' else ''false'')"
| "stringify (JNum n) = show_int n"
| "stringify (JStr s) = json_quote s"
| "stringify (JArr xs) =
     ''['' @ join_with '','' (map (\<lambda>x. if x = Undefined then ''null'' else stringify x) xs) @ '']''"
| "stringify (JObj kvs) =
     ''{'' @ join_with '',''
        (map (\<lambda>kv. json_quote (fst kv) @ '':'' @ stringify (snd kv))
           (filter (\<lambda>kv. snd kv \<noteq> Undefined) kvs))
      @ ''}''"

section \<open>Network, clock and trace\<close>

text \<open>
  What a \<open>fetch\<close> call meets: either the call rejects (\<open>r_error\<close>), or a response
  arrives after \<open>r_latency\<close> milliseconds (a negative value counts as no delay).
  \<open>r_body\<close> is the body as \<open>res.text()\<close> or \<open>res.arrayBuffer()\<close> read it,
  \<open>r_json\<close> as \<open>res.json()\<close> parses it (\<open>None\<close> when the body is not JSON and
  \<open>res.json()\<close> throws).
\<close>

record response =
  r_error :: "string option"
  r_ok :: bool
  r_status :: nat
  r_statusText :: string
  r_body :: string
  r_json :: "json option"
  r_ctype :: "string option"
  r_latency :: int

text \<open>The effects of a run that an observer outside the function can see, in order.
  \<open>console.log\<close> is left out; \<open>console.warn\<close> is kept.\<close>

datatype 'p event =
    Sleep int
  | Fetch string string string "'p option"
  | Warn string
  | Sign string string int

text \<open>\<open>Fetch method url credential payload\<close>: the credential is the value of the
  header that authenticates the call (empty when the call carries none).
  \<open>Sign accessKey secretKey now\<close>: a token is signed at second \<open>now\<close>.\<close>

type_synonym bucket_store = "((string \<times> string) \<times> string) list"

record 'p world =
  now :: int
  trace :: "(int \<times> 'p event) list"
  storage :: bucket_store

definition emit :: "'p event \<Rightarrow> 'p world \<Rightarrow> 'p world" where
  "emit e w = w\<lparr>trace := trace w @ [(now w, e)]\<rparr>"

definition advance :: "int \<Rightarrow> 'p world \<Rightarrow> 'p world" where
  "advance ms w = w\<lparr>now := now w + ms\<rparr>"

text \<open>\<open>await new Promise((r) => setTimeout(r, ms))\<close>.\<close>

definition sleep :: "int \<Rightarrow> 'p world \<Rightarrow> 'p world" where
  "sleep ms w = advance ms (emit (Sleep ms) w)"

text \<open>\<open>await fetch(url, ...)\<close> answered by \<open>res\<close>: \<open>Inl\<close> is the error thrown.\<close>

definition fetch ::
  "string \<Rightarrow> string \<Rightarrow> string \<Rightarrow> 'p option \<Rightarrow> response \<Rightarrow> 'p world \<Rightarrow> (string + response) \<times> 'p world"
where
  "fetch method url cred payload res w =
     (let w1 = advance (max 0 (r_latency res)) (emit (Fetch method url cred payload) w)
      in case r_error res of Some m \<Rightarrow> (Inl m, w1) | None \<Rightarrow> (Inr res, w1))"

text \<open>\<open>await res.json()\<close>.\<close>

definition read_json :: "response \<Rightarrow> string + json" where
  "read_json res = (case r_json res of None \<Rightarrow> Inl ''Unexpected token in JSON'' | Some j \<Rightarrow> Inr j)"

section \<open>The poll loop\<close>

text \<open>
  Every endpoint polls with the same loop:
  \<^verbatim>\<open>
  const deadline = Date.now() + maxWaitMs;
  while (Date.now() < deadline) {
    await new Promise((r) => setTimeout(r, intervalMs));
    const res = await fetch(url, { headers: ... });
    ... throw, return, or fall through to the next iteration ...
  }
  throw new Error(timeoutMessage);
  \<close>
  The endpoints differ in the URL, the credential header, the constants and in what the
  body of the loop does with the response: \<open>classify\<close> is that body. The loop need not
  terminate for every \<open>intervalMs\<close>, so it is a partial function: \<open>None\<close> is a loop that
  never returns. \<open>resps i\<close> answers the \<open>i\<close>-th status query. The result is the outcome
  (\<open>Inl\<close> the error thrown), the number of status queries made, and the world.
\<close>

datatype 'r step = Continue | Return 'r | Throw string

partial_function (option) pollLoop ::
  "(response \<Rightarrow> 'r step) \<Rightarrow> (nat \<Rightarrow> response) \<Rightarrow> string \<Rightarrow> string \<Rightarrow> string \<Rightarrow>
   int \<Rightarrow> int \<Rightarrow> nat \<Rightarrow> 'p world \<Rightarrow> ((string + 'r) \<times> nat \<times> 'p world) option"
where
  "pollLoop classify resps url cred timeoutMsg deadline intervalMs i w =
     (if now w < deadline then
        (case fetch ''GET'' url cred None (resps i) (sleep intervalMs w) of
           (Inl err, w1) \<Rightarrow> Some (Inl err, Suc i, w1)
         | (Inr res, w1) \<Rightarrow>
             (case classify res of
                Throw err \<Rightarrow> Some (Inl err, Suc i, w1)
              | Return r \<Rightarrow> Some (Inr r, Suc i, w1)
              | Continue \<Rightarrow> pollLoop classify resps url cred timeoutMsg deadline intervalMs (Suc i) w1))
      else Some (Inl timeoutMsg, i, w))"

declare pollLoop.simps [code]

definition poll ::
  "(response \<Rightarrow> 'r step) \<Rightarrow> (nat \<Rightarrow> response) \<Rightarrow> string \<Rightarrow> string \<Rightarrow> string \<Rightarrow>
   int \<Rightarrow> int \<Rightarrow> 'p world \<Rightarrow> ((string + 'r) \<times> nat \<times> 'p world) option"
where
  "poll classify resps url cred timeoutMsg maxWaitMs intervalMs w =
     pollLoop classify resps url cred timeoutMsg (now w + maxWaitMs) intervalMs 0 w"

section \<open>Handler results, storage\<close>

record http_response =
  rs_status :: nat
  rs_body :: "(string \<times> json) list"

text \<open>How a step inside the handler's \<open>try\<close> block ends: it goes on with a value, it
  throws an \<open>Error\<close> with a message, or it returns a response at once.\<close>

datatype 'a res = Ok 'a | Err string | Ret http_response

text \<open>The handler's \<open>catch\<close>: every thrown \<open>Error\<close> becomes a 500 response carrying
  its message.\<close>

definition catch500 :: "string \<Rightarrow> http_response" where
  "catch500 msg = \<lparr>rs_status = 500, rs_body = [(''error'', JStr msg)]\<rparr>"

definition default_to :: "'a \<Rightarrow> 'a option \<Rightarrow> 'a" where
  "default_to d x = (case x of None \<Rightarrow> d | Some v \<Rightarrow> v)"

text \<open>
  Modelled from the spec: the object storage service, which is an external library in the
  source (\<open>supabase.storage.from(bucket).upload(key, bytes, {contentType, upsert})\<close> and
  \<open>getPublicUrl(key)\<close>). The spec's interface is
  \<open>upload(bucket, key, bytes, contentType, overwrite) -> ok|error\<close> and
  \<open>publicUrl(bucket, key) -> URL\<close>. The store is a list of objects; \<open>fault\<close> is an error
  of the service itself. The public URL has the shape the source's notes show.
\<close>

definition has_object :: "bucket_store \<Rightarrow> string \<Rightarrow> string \<Rightarrow> bool" where
  "has_object st bucket k = ((bucket, k) \<in> set (map fst st))"

definition storage_upload ::
  "string option \<Rightarrow> string \<Rightarrow> string \<Rightarrow> string \<Rightarrow> bool \<Rightarrow> bucket_store \<Rightarrow> string option \<times> bucket_store"
where
  "storage_upload fault bucket k bytes upsert st =
     (case fault of
        Some m \<Rightarrow> (Some m, st)
      | None \<Rightarrow>
          if has_object st bucket k then
            (if upsert
             then (None, map (\<lambda>e. if fst e = (bucket, k) then ((bucket, k), bytes) else e) st)
             else (Some ''The resource already exists'', st))
          else (None, st @ [((bucket, k), bytes)]))"

definition getPublicUrl :: "string \<Rightarrow> string \<Rightarrow> string \<Rightarrow> string" where
  "getPublicUrl supabaseUrl bucket k = supabaseUrl @ ''/storage/v1/object/public/'' @ bucket @ ''/'' @ k"

section \<open>veo-video-generation\<close>

definition veo_BASE_URL :: string where
  "veo_BASE_URL = ''https://generativelanguage.googleapis.com/v1beta''"

record veo_request =
  v_gemini_api_key :: "string option"
  v_prompt :: "string option"
  v_model :: "string option"
  v_aspect_ratio :: "string option"
  v_resolution :: "string option"
  v_duration_seconds :: "string option"
  v_negative_prompt :: "string option"
  v_image_url :: "string option"
  v_person_generation :: "string option"

text \<open>\<open>{ instances: [{ prompt, image? }], parameters: {...} }\<close>; the image is
  \<open>(mimeType, data)\<close>.\<close>

record veo_payload =
  vp_prompt :: string
  vp_image :: "(string \<times> string) option"
  vp_aspectRatio :: string
  vp_resolution :: string
  vp_durationSeconds :: string
  vp_personGeneration :: string
  vp_numberOfVideos :: nat
  vp_negativePrompt :: "string option"

text \<open>What the run meets outside: the answers to its calls, in the order of the source.\<close>

record veo_env =
  ve_image :: response
  ve_create :: response
  ve_polls :: "nat \<Rightarrow> response"
  ve_video :: response
  ve_upload_fault :: "string option"
  ve_supabase_url :: string

definition veo_classify :: "response \<Rightarrow> json step" where
  "veo_classify res =
     (if \<not> r_ok res then Throw (''Poll failed: '' @ r_body res)
      else case read_json res of
        Inl e \<Rightarrow> Throw e
      | Inr operation \<Rightarrow>
          (case field operation ''done'' of
             Inl e \<Rightarrow> Throw e
           | Inr d \<Rightarrow> if truthy d then Return operation else Continue))"

definition veo_maxWaitMs :: int where "veo_maxWaitMs = 10 * 60 * 1000"
definition veo_intervalMs :: int where "veo_intervalMs = 10000"

definition veo_pollUntilComplete ::
  "(nat \<Rightarrow> response) \<Rightarrow> string \<Rightarrow> string \<Rightarrow> int \<Rightarrow> int \<Rightarrow> veo_payload world \<Rightarrow>
   ((string + json) \<times> nat \<times> veo_payload world) option"
where
  "veo_pollUntilComplete resps operationName apiKey maxWaitMs intervalMs w =
     poll veo_classify resps (veo_BASE_URL @ ''/'' @ operationName) apiKey
       ''Timed out waiting for Veo video (10 min limit reached).'' maxWaitMs intervalMs w"

text \<open>Step 1 of the handler: the three checks, in the source's order. \<open>None\<close> lets the
  request through.\<close>

definition bad_request :: "string \<Rightarrow> http_response" where
  "bad_request msg = \<lparr>rs_status = 400, rs_body = [(''error'', JStr msg)]\<rparr>"

definition veo_validate :: "veo_request \<Rightarrow> http_response option" where
  "veo_validate req =
     (let resolution = default_to ''720p'' (v_resolution req);
          duration_seconds = default_to ''8'' (v_duration_seconds req)
      in if blank (v_gemini_api_key req) then Some (bad_request ''gemini_api_key is required'')
         else if blank (v_prompt req) then Some (bad_request ''prompt is required'')
         else if (resolution = ''1080p'' \<or> resolution = ''4k'') \<and> duration_seconds \<noteq> ''8''
         then Some (bad_request (''1080p and 4k resolution only support duration_seconds = ''
                 @ [CHR 0x27] @ ''8'' @ [CHR 0x27]))
         else None)"

text \<open>Step 2: the payload. With an \<open>image_url\<close> the image is fetched first.\<close>

definition veo_parameters :: "veo_request \<Rightarrow> (string \<times> string) option \<Rightarrow> veo_payload" where
  "veo_parameters req img =
     \<lparr>vp_prompt = default_to [] (v_prompt req),
      vp_image = img,
      vp_aspectRatio = default_to ''16:9'' (v_aspect_ratio req),
      vp_resolution = default_to ''720p'' (v_resolution req),
      vp_durationSeconds = default_to ''8'' (v_duration_seconds req),
      vp_personGeneration = default_to ''allow_all'' (v_person_generation req),
      vp_numberOfVideos = 1,
      vp_negativePrompt = (if blank (v_negative_prompt req) then None else v_negative_prompt req)\<rparr>"

definition veo_build_payload ::
  "veo_env \<Rightarrow> veo_request \<Rightarrow> veo_payload world \<Rightarrow> veo_payload res \<times> veo_payload world"
where
  "veo_build_payload env req w =
     (case v_image_url req of
        None \<Rightarrow> (Ok (veo_parameters req None), w)
      | Some url \<Rightarrow>
          if url = [] then (Ok (veo_parameters req None), w)
          else (case fetch ''GET'' url [] None (ve_image env) w of
                  (Inl e, w1) \<Rightarrow> (Err e, w1)
                | (Inr imgRes, w1) \<Rightarrow>
                    if \<not> r_ok imgRes then (Ret (bad_request ''Could not fetch image_url''), w1)
                    else (Ok (veo_parameters req
                            (Some (default_to ''image/jpeg'' (r_ctype imgRes), btoa (r_body imgRes)))), w1)))"

text \<open>Step 3: submission. The result is the operation name the provider returned.\<close>

definition veo_submit ::
  "veo_env \<Rightarrow> veo_request \<Rightarrow> veo_payload \<Rightarrow> veo_payload world \<Rightarrow> json res \<times> veo_payload world"
where
  "veo_submit env req payload w =
     (case fetch ''POST''
             (veo_BASE_URL @ ''/models/'' @ default_to ''veo-3.1-generate-preview'' (v_model req)
                @ '':predictLongRunning'')
             (default_to [] (v_gemini_api_key req)) (Some payload) (ve_create env) w of
        (Inl e, w1) \<Rightarrow> (Err e, w1)
      | (Inr createRes, w1) \<Rightarrow>
          if \<not> r_ok createRes then
            (Ret \<lparr>rs_status = r_status createRes,
                  rs_body = [(''error'', JStr ''Veo job creation failed''),
                             (''details'', JStr (r_body createRes))]\<rparr>, w1)
          else (case read_json createRes of
                  Inl e \<Rightarrow> (Err e, w1)
                | Inr createJson \<Rightarrow>
                    (let operationName = opt_field createJson ''name'' in
                     if \<not> truthy operationName then
                       (Ret \<lparr>rs_status = 500,
                             rs_body = [(''error'', JStr ''Veo did not return an operation name''),
                                        (''raw'', createJson)]\<rparr>, w1)
                     else (Ok operationName, w1))))"

text \<open>Steps 6 and 7: the upload under a key derived from the operation name, and the
  public URL. \<open>operationName.replace\<close> exists on strings only.\<close>

definition veo_fileName :: "string \<Rightarrow> string" where
  "veo_fileName operationName =
     map (\<lambda>c. if c = CHR ''/'' then CHR ''_'' else c) operationName @ ''.mp4''"

definition veo_materialize ::
  "veo_env \<Rightarrow> json \<Rightarrow> string \<Rightarrow> veo_payload world \<Rightarrow> string res \<times> veo_payload world"
where
  "veo_materialize env operationName videoBuffer w =
     (case operationName of
        JStr name \<Rightarrow>
          (case storage_upload (ve_upload_fault env) ''veo-videos'' (veo_fileName name) videoBuffer
                  True (storage w) of
             (Some m, st) \<Rightarrow> (Err (''Supabase Storage upload failed: '' @ m), w\<lparr>storage := st\<rparr>)
           | (None, st) \<Rightarrow>
               (Ok (getPublicUrl (ve_supabase_url env) ''veo-videos'' (veo_fileName name)),
                w\<lparr>storage := st\<rparr>))
      | _ \<Rightarrow> (Err ''operationName.replace is not a function'', w))"

text \<open>Steps 4 (after the poll) to 7: the completed operation is checked, the video is
  downloaded and stored.\<close>

definition veo_videoUri :: "json \<Rightarrow> json" where
  "veo_videoUri completed =
     opt_field (opt_field (opt_first (opt_field (opt_field (opt_field completed ''response'')
       ''generateVideoResponse'') ''generatedSamples'')) ''video'') ''uri''"

definition veo_finish ::
  "veo_env \<Rightarrow> veo_request \<Rightarrow> json \<Rightarrow> json \<Rightarrow> veo_payload world \<Rightarrow>
   http_response res \<times> veo_payload world"
where
  "veo_finish env req operationName completed w =
     (if truthy (opt_field completed ''error'') then
        (Ret \<lparr>rs_status = 500,
              rs_body = [(''error'', JStr ''Veo video generation failed''),
                         (''reason'', nullish (opt_field (opt_field completed ''error'') ''message'')
                                        (JStr ''Unknown error from Veo''))]\<rparr>, w)
      else if \<not> truthy (veo_videoUri completed) then
        (Err ''Veo returned done=true but no video URI found.'', w)
      else (case fetch ''GET'' (to_str (veo_videoUri completed))
                   (default_to [] (v_gemini_api_key req)) None (ve_video env) w of
              (Inl e, w1) \<Rightarrow> (Err e, w1)
            | (Inr videoRes, w1) \<Rightarrow>
                if \<not> r_ok videoRes then
                  (Err (''Failed to download video from Veo: '' @ r_body videoRes), w1)
                else (case veo_materialize env operationName (r_body videoRes) w1 of
                        (Err e, w2) \<Rightarrow> (Err e, w2)
                      | (Ret r, w2) \<Rightarrow> (Ret r, w2)
                      | (Ok url, w2) \<Rightarrow>
                          (Ok \<lparr>rs_status = 200,
                               rs_body = [(''success'', JBool True),
                                          (''operation_name'', operationName),
                                          (''model'', JStr (default_to ''veo-3.1-generate-preview'' (v_model req))),
                                          (''aspect_ratio'', JStr (default_to ''16:9'' (v_aspect_ratio req))),
                                          (''resolution'', JStr (default_to ''720p'' (v_resolution req))),
                                          (''duration_seconds'', JStr (default_to ''8'' (v_duration_seconds req))),
                                          (''video_url'', JStr url)]\<rparr>, w2))))"

text \<open>The response a step's end stands for.\<close>

definition respond :: "http_response res \<Rightarrow> http_response" where
  "respond r = (case r of Ok resp \<Rightarrow> resp | Ret resp \<Rightarrow> resp | Err msg \<Rightarrow> catch500 msg)"

definition veo_handler ::
  "veo_env \<Rightarrow> veo_request \<Rightarrow> veo_payload world \<Rightarrow> (http_response \<times> veo_payload world) option"
where
  "veo_handler env req w =
     (case veo_validate req of
        Some resp \<Rightarrow> Some (resp, w)
      | None \<Rightarrow>
          (case veo_build_payload env req w of
             (Err e, w1) \<Rightarrow> Some (catch500 e, w1)
           | (Ret r, w1) \<Rightarrow> Some (r, w1)
           | (Ok payload, w1) \<Rightarrow>
               (case veo_submit env req payload w1 of
                  (Err e, w2) \<Rightarrow> Some (catch500 e, w2)
                | (Ret r, w2) \<Rightarrow> Some (r, w2)
                | (Ok operationName, w2) \<Rightarrow>
                    (case veo_pollUntilComplete (ve_polls env) (to_str operationName)
                            (default_to [] (v_gemini_api_key req)) veo_maxWaitMs veo_intervalMs w2 of
                       None \<Rightarrow> None
                     | Some (Inl e, n, w3) \<Rightarrow> Some (catch500 e, w3)
                     | Some (Inr completed, n, w3) \<Rightarrow>
                         (case veo_finish env req operationName completed w3 of
                            (r, w4) \<Rightarrow> Some (respond r, w4))))))"

section \<open>sora-video-generation\<close>

record sora_request =
  s_openai_api_key :: "string option"
  s_prompt :: "string option"
  s_model :: "string option"
  s_size :: "string option"
  s_seconds :: "int option"
  s_input_reference_url :: "string option"

text \<open>The multipart form; \<open>sf_input_reference\<close> is the fetched image.\<close>

record sora_form =
  sf_model :: string
  sf_prompt :: string
  sf_size :: string
  sf_seconds :: string
  sf_input_reference :: "string option"

record sora_env =
  se_image :: response
  se_create :: response
  se_polls :: "nat \<Rightarrow> response"
  se_video :: response
  se_upload_fault :: "string option"
  se_supabase_url :: string

definition sora_classify :: "response \<Rightarrow> json step" where
  "sora_classify res =
     (if \<not> r_ok res then Throw (''Poll failed: '' @ r_body res)
      else case read_json res of
        Inl e \<Rightarrow> Throw e
      | Inr job \<Rightarrow>
          (case field job ''status'' of
             Inl e \<Rightarrow> Throw e
           | Inr st \<Rightarrow> if st = JStr ''completed'' \<or> st = JStr ''failed'' then Return job else Continue))"

definition sora_maxWaitMs :: int where "sora_maxWaitMs = 12 * 60 * 1000"
definition sora_intervalMs :: int where "sora_intervalMs = 10000"

definition sora_pollUntilComplete ::
  "(nat \<Rightarrow> response) \<Rightarrow> string \<Rightarrow> string \<Rightarrow> int \<Rightarrow> int \<Rightarrow> sora_form world \<Rightarrow>
   ((string + json) \<times> nat \<times> sora_form world) option"
where
  "sora_pollUntilComplete resps jobId apiKey maxWaitMs intervalMs w =
     poll sora_classify resps (''https://api.openai.com/v1/videos/'' @ jobId) (''Bearer '' @ apiKey)
       ''Timed out waiting for video (12 min limit reached).'' maxWaitMs intervalMs w"

definition sora_validate :: "sora_request \<Rightarrow> http_response option" where
  "sora_validate req =
     (let seconds = default_to 5 (s_seconds req)
      in if blank (s_openai_api_key req) then Some (bad_request ''openai_api_key is required'')
         else if blank (s_prompt req) then Some (bad_request ''prompt is required'')
         else if seconds < 5 \<or> seconds > 20 then Some (bad_request ''seconds must be between 5 and 20'')
         else None)"

definition sora_fields :: "sora_request \<Rightarrow> string option \<Rightarrow> sora_form" where
  "sora_fields req reference =
     \<lparr>sf_model = default_to ''sora-2'' (s_model req),
      sf_prompt = default_to [] (s_prompt req),
      sf_size = default_to ''1280x720'' (s_size req),
      sf_seconds = show_int (default_to 5 (s_seconds req)),
      sf_input_reference = reference\<rparr>"

definition sora_build_form ::
  "sora_env \<Rightarrow> sora_request \<Rightarrow> sora_form world \<Rightarrow> sora_form res \<times> sora_form world"
where
  "sora_build_form env req w =
     (case s_input_reference_url req of
        None \<Rightarrow> (Ok (sora_fields req None), w)
      | Some url \<Rightarrow>
          if url = [] then (Ok (sora_fields req None), w)
          else (case fetch ''GET'' url [] None (se_image env) w of
                  (Inl e, w1) \<Rightarrow> (Err e, w1)
                | (Inr imgRes, w1) \<Rightarrow>
                    if \<not> r_ok imgRes then (Ret (bad_request ''Could not fetch input_reference_url''), w1)
                    else (Ok (sora_fields req (Some (r_body imgRes))), w1)))"

text \<open>Submission. The created job is returned as the provider sent it; its \<open>id\<close> is
  read (for the log line) but not checked.\<close>

definition sora_submit ::
  "sora_env \<Rightarrow> sora_request \<Rightarrow> sora_form \<Rightarrow> sora_form world \<Rightarrow> json res \<times> sora_form world"
where
  "sora_submit env req form w =
     (case fetch ''POST'' ''https://api.openai.com/v1/videos''
             (''Bearer '' @ default_to [] (s_openai_api_key req)) (Some form) (se_create env) w of
        (Inl e, w1) \<Rightarrow> (Err e, w1)
      | (Inr createRes, w1) \<Rightarrow>
          if \<not> r_ok createRes then
            (Ret \<lparr>rs_status = r_status createRes,
                  rs_body = [(''error'', JStr ''Sora job creation failed''),
                             (''details'', JStr (r_body createRes))]\<rparr>, w1)
          else (case read_json createRes of
                  Inl e \<Rightarrow> (Err e, w1)
                | Inr job \<Rightarrow>
                    (case field job ''id'' of
                       Inl e \<Rightarrow> (Err e, w1)
                     | Inr jobId \<Rightarrow> (Ok jobId, w1))))"

definition sora_fileName :: "json \<Rightarrow> string" where
  "sora_fileName completedId = to_str completedId @ ''.mp4''"

definition sora_materialize ::
  "sora_env \<Rightarrow> json \<Rightarrow> string \<Rightarrow> sora_form world \<Rightarrow> string res \<times> sora_form world"
where
  "sora_materialize env completedId videoBuffer w =
     (case storage_upload (se_upload_fault env) ''sora-videos'' (sora_fileName completedId) videoBuffer
             True (storage w) of
        (Some m, st) \<Rightarrow> (Err (''Supabase Storage upload failed: '' @ m), w\<lparr>storage := st\<rparr>)
      | (None, st) \<Rightarrow>
          (Ok (getPublicUrl (se_supabase_url env) ''sora-videos'' (sora_fileName completedId)),
           w\<lparr>storage := st\<rparr>))"

definition sora_finish ::
  "sora_env \<Rightarrow> sora_request \<Rightarrow> json \<Rightarrow> sora_form world \<Rightarrow> http_response res \<times> sora_form world"
where
  "sora_finish env req completed w =
     (if opt_field completed ''status'' = JStr ''failed'' then
        (Ret \<lparr>rs_status = 500,
              rs_body = [(''error'', JStr ''Video generation failed''),
                         (''job_id'', opt_field completed ''id''),
                         (''reason'', nullish (opt_field (opt_field completed ''error'') ''message'')
                                        (JStr ''Sora returned a failure status.''))]\<rparr>, w)
      else (case fetch ''GET''
                   (''https://api.openai.com/v1/videos/'' @ to_str (opt_field completed ''id'')
                      @ ''/content?variant=video'')
                   (''Bearer '' @ default_to [] (s_openai_api_key req)) None (se_video env) w of
              (Inl e, w1) \<Rightarrow> (Err e, w1)
            | (Inr videoRes, w1) \<Rightarrow>
                if \<not> r_ok videoRes then
                  (Err (''Failed to download video from OpenAI: '' @ r_body videoRes), w1)
                else (case sora_materialize env (opt_field completed ''id'') (r_body videoRes) w1 of
                        (Err e, w2) \<Rightarrow> (Err e, w2)
                      | (Ret r, w2) \<Rightarrow> (Ret r, w2)
                      | (Ok url, w2) \<Rightarrow>
                          (Ok \<lparr>rs_status = 200,
                               rs_body = [(''success'', JBool True),
                                          (''job_id'', opt_field completed ''id''),
                                          (''model'', opt_field completed ''model''),
                                          (''size'', opt_field completed ''size''),
                                          (''seconds'', opt_field completed ''seconds''),
                                          (''video_url'', JStr url)]\<rparr>, w2))))"

definition sora_handler ::
  "sora_env \<Rightarrow> sora_request \<Rightarrow> sora_form world \<Rightarrow> (http_response \<times> sora_form world) option"
where
  "sora_handler env req w =
     (case sora_validate req of
        Some resp \<Rightarrow> Some (resp, w)
      | None \<Rightarrow>
          (case sora_build_form env req w of
             (Err e, w1) \<Rightarrow> Some (catch500 e, w1)
           | (Ret r, w1) \<Rightarrow> Some (r, w1)
           | (Ok form, w1) \<Rightarrow>
               (case sora_submit env req form w1 of
                  (Err e, w2) \<Rightarrow> Some (catch500 e, w2)
                | (Ret r, w2) \<Rightarrow> Some (r, w2)
                | (Ok jobId, w2) \<Rightarrow>
                    (case sora_pollUntilComplete (se_polls env) (to_str jobId)
                            (default_to [] (s_openai_api_key req)) sora_maxWaitMs sora_intervalMs w2 of
                       None \<Rightarrow> None
                     | Some (Inl e, n, w3) \<Rightarrow> Some (catch500 e, w3)
                     | Some (Inr completed, n, w3) \<Rightarrow>
                         (case sora_finish env req completed w3 of
                            (r, w4) \<Rightarrow> Some (respond r, w4))))))"

section \<open>heygen-video-generation\<close>

definition FALLBACK_AVATAR_ID :: string where
  "FALLBACK_AVATAR_ID = ''Angela-inTshirt-20220820''"

definition FALLBACK_VOICE_ID :: string where
  "FALLBACK_VOICE_ID = ''1bd001e7e50f421d891986aad5158bc8''"

record heygen_request =
  h_heygen_api_key :: "string option"
  h_script :: "string option"
  h_avatar_id :: "string option"
  h_voice_id :: "string option"
  h_avatar_style :: "string option"
  h_width :: "int option"
  h_height :: "int option"
  h_background_color :: "string option"
  h_title :: "string option"
  h_speed :: "rat option"

text \<open>The ids are JSON values: a catalog can hand back anything.\<close>

record heygen_payload =
  hp_title :: string
  hp_avatar_id :: json
  hp_avatar_style :: string
  hp_input_text :: string
  hp_voice_id :: json
  hp_speed :: rat
  hp_background :: string
  hp_width :: int
  hp_height :: int

record heygen_env =
  he_avatars :: response
  he_voices :: response
  he_create :: response
  he_polls :: "nat \<Rightarrow> response"
  he_video :: response
  he_upload_fault :: "string option"
  he_supabase_url :: string

text \<open>The body of the \<open>try\<close> in \<open>fetchFirstAvatarId\<close>, after the fetch: \<open>Inl\<close> is the
  error it throws, as \<open>`${e}`\<close> prints it.\<close>

definition first_avatar :: "response \<Rightarrow> string + json" where
  "first_avatar res =
     (if \<not> r_ok res then Inl ''Error: Avatar list fetch failed''
      else case read_json res of
        Inl e \<Rightarrow> Inl (''SyntaxError: '' @ e)
      | Inr j \<Rightarrow>
          (let avatars = nullish (opt_field (opt_field j ''data'') ''avatars'') (JArr []) in
           if opt_field avatars ''length'' = JNum 0 then Inl ''Error: No avatars found''
           else Inr (opt_field (opt_first avatars) ''avatar_id'')))"

definition fetchFirstAvatarId ::
  "response \<Rightarrow> string \<Rightarrow> heygen_payload world \<Rightarrow> json \<times> heygen_payload world"
where
  "fetchFirstAvatarId answer apiKey w =
     (let (r, w1) = fetch ''GET'' ''https://api.heygen.com/v2/avatars'' apiKey None answer w;
          outcome = (case r of Inl e \<Rightarrow> Inl (''TypeError: '' @ e) | Inr res \<Rightarrow> first_avatar res)
      in case outcome of
           Inr ident \<Rightarrow> (ident, w1)
         | Inl e \<Rightarrow>
             (JStr FALLBACK_AVATAR_ID,
              emit (Warn (''[heygen-video] Could not fetch avatar list ('' @ e @ ''), using fallback.'')) w1))"

text \<open>\<open>voices.find((v) => v.language === "English" || v.locale?.startsWith("en"))\<close>.\<close>

definition voice_is_english :: "json \<Rightarrow> string + bool" where
  "voice_is_english v =
     (case field v ''language'' of
        Inl e \<Rightarrow> Inl (''TypeError: '' @ e)
      | Inr lang \<Rightarrow>
          if lang = JStr ''English'' then Inr True
          else (case opt_field v ''locale'' of
                  Undefined \<Rightarrow> Inr False
                | Null \<Rightarrow> Inr False
                | JStr l \<Rightarrow> Inr (take 2 l = ''en'')
                | _ \<Rightarrow> Inl ''TypeError: v.locale?.startsWith is not a function''))"

fun find_english :: "json list \<Rightarrow> string + json" where
  "find_english [] = Inr Undefined"
| "find_english (v # vs) =
     (case voice_is_english v of
        Inl e \<Rightarrow> Inl e
      | Inr True \<Rightarrow> Inr v
      | Inr False \<Rightarrow> find_english vs)"

definition first_voice :: "response \<Rightarrow> string + json" where
  "first_voice res =
     (if \<not> r_ok res then Inl ''Error: Voice list fetch failed''
      else case read_json res of
        Inl e \<Rightarrow> Inl (''SyntaxError: '' @ e)
      | Inr j \<Rightarrow>
          (let voices = nullish (opt_field (opt_field j ''data'') ''voices'') (JArr []) in
           if opt_field voices ''length'' = JNum 0 then Inl ''Error: No voices found''
           else (case voices of
                   JArr vs \<Rightarrow>
                     (case find_english vs of
                        Inl e \<Rightarrow> Inl e
                      | Inr english \<Rightarrow> Inr (opt_field (nullish english (opt_first voices)) ''voice_id''))
                 | _ \<Rightarrow> Inl ''TypeError: voices.find is not a function'')))"

definition fetchFirstVoiceId ::
  "response \<Rightarrow> string \<Rightarrow> heygen_payload world \<Rightarrow> json \<times> heygen_payload world"
where
  "fetchFirstVoiceId answer apiKey w =
     (let (r, w1) = fetch ''GET'' ''https://api.heygen.com/v2/voices'' apiKey None answer w;
          outcome = (case r of Inl e \<Rightarrow> Inl (''TypeError: '' @ e) | Inr res \<Rightarrow> first_voice res)
      in case outcome of
           Inr ident \<Rightarrow> (ident, w1)
         | Inl e \<Rightarrow>
             (JStr FALLBACK_VOICE_ID,
              emit (Warn (''[heygen-video] Could not fetch voice list ('' @ e @ ''), using fallback.'')) w1))"

definition heygen_classify :: "response \<Rightarrow> json step" where
  "heygen_classify res =
     (if \<not> r_ok res then Throw (''Poll failed: '' @ r_body res)
      else case read_json res of
        Inl e \<Rightarrow> Throw e
      | Inr j \<Rightarrow>
          (case field j ''data'' of
             Inl e \<Rightarrow> Throw e
           | Inr job \<Rightarrow>
               (case field job ''status'' of
                  Inl e \<Rightarrow> Throw e
                | Inr st \<Rightarrow>
                    if st = JStr ''completed'' \<or> st = JStr ''failed'' then Return job else Continue)))"

definition heygen_maxWaitMs :: int where "heygen_maxWaitMs = 15 * 60 * 1000"
definition heygen_intervalMs :: int where "heygen_intervalMs = 10000"

definition heygen_pollUntilComplete ::
  "(nat \<Rightarrow> response) \<Rightarrow> string \<Rightarrow> string \<Rightarrow> int \<Rightarrow> int \<Rightarrow> heygen_payload world \<Rightarrow>
   ((string + json) \<times> nat \<times> heygen_payload world) option"
where
  "heygen_pollUntilComplete resps videoId apiKey maxWaitMs intervalMs w =
     poll heygen_classify resps (''https://api.heygen.com/v1/video_status.get?video_id='' @ videoId)
       apiKey ''Timed out waiting for HeyGen video (15 min limit reached).'' maxWaitMs intervalMs w"

definition heygen_validate :: "heygen_request \<Rightarrow> http_response option" where
  "heygen_validate req =
     (let speed = default_to 1 (h_speed req)
      in if blank (h_heygen_api_key req) then Some (bad_request ''heygen_api_key is required'')
         else if blank (h_script req) then Some (bad_request ''script is required'')
         else if speed < 1 / 2 \<or> speed > 2 then Some (bad_request ''speed must be between 0.5 and 2.0'')
         else None)"

text \<open>Step 2: \<open>body.avatar_id?.trim() || fetchFirstAvatarId(heygen_api_key)\<close> and the
  same for the voice. The source starts both lookups before awaiting either; here the
  avatar lookup is completed first, then the voice lookup.\<close>

definition heygen_resolve_ids ::
  "heygen_env \<Rightarrow> heygen_request \<Rightarrow> heygen_payload world \<Rightarrow> (json \<times> json) \<times> heygen_payload world"
where
  "heygen_resolve_ids env req w =
     (let (avatar_id, w1) =
            (if blank (h_avatar_id req)
             then fetchFirstAvatarId (he_avatars env) (default_to [] (h_heygen_api_key req)) w
             else (JStr (trim (default_to [] (h_avatar_id req))), w));
          (voice_id, w2) =
            (if blank (h_voice_id req)
             then fetchFirstVoiceId (he_voices env) (default_to [] (h_heygen_api_key req)) w1
             else (JStr (trim (default_to [] (h_voice_id req))), w1))
      in ((avatar_id, voice_id), w2))"

definition heygen_build_payload :: "heygen_request \<Rightarrow> json \<Rightarrow> json \<Rightarrow> heygen_payload" where
  "heygen_build_payload req avatar_id voice_id =
     \<lparr>hp_title = default_to ''Generated Video'' (h_title req),
      hp_avatar_id = avatar_id,
      hp_avatar_style = default_to ''normal'' (h_avatar_style req),
      hp_input_text = default_to [] (h_script req),
      hp_voice_id = voice_id,
      hp_speed = default_to 1 (h_speed req),
      hp_background = default_to ''#ffffff'' (h_background_color req),
      hp_width = default_to 1280 (h_width req),
      hp_height = default_to 720 (h_height req)\<rparr>"

definition heygen_submit ::
  "heygen_env \<Rightarrow> heygen_request \<Rightarrow> heygen_payload \<Rightarrow> heygen_payload world \<Rightarrow>
   json res \<times> heygen_payload world"
where
  "heygen_submit env req payload w =
     (case fetch ''POST'' ''https://api.heygen.com/v2/video/generate''
             (default_to [] (h_heygen_api_key req)) (Some payload) (he_create env) w of
        (Inl e, w1) \<Rightarrow> (Err e, w1)
      | (Inr createRes, w1) \<Rightarrow>
          if \<not> r_ok createRes then
            (Ret \<lparr>rs_status = r_status createRes,
                  rs_body = [(''error'', JStr ''HeyGen video creation failed''),
                             (''details'', JStr (r_body createRes))]\<rparr>, w1)
          else (case read_json createRes of
                  Inl e \<Rightarrow> (Err e, w1)
                | Inr createJson \<Rightarrow>
                    (let videoId = opt_field (opt_field createJson ''data'') ''video_id'' in
                     if \<not> truthy videoId then
                       (Ret \<lparr>rs_status = 500,
                             rs_body = [(''error'', JStr ''HeyGen did not return a video_id''),
                                        (''raw'', createJson)]\<rparr>, w1)
                     else (Ok videoId, w1))))"

definition heygen_fileName :: "json \<Rightarrow> string" where
  "heygen_fileName videoId = to_str videoId @ ''.mp4''"

definition heygen_materialize ::
  "heygen_env \<Rightarrow> json \<Rightarrow> string \<Rightarrow> heygen_payload world \<Rightarrow> string res \<times> heygen_payload world"
where
  "heygen_materialize env videoId videoBuffer w =
     (case storage_upload (he_upload_fault env) ''heygen-videos'' (heygen_fileName videoId) videoBuffer
             True (storage w) of
        (Some m, st) \<Rightarrow> (Err (''Supabase Storage upload failed: '' @ m), w\<lparr>storage := st\<rparr>)
      | (None, st) \<Rightarrow>
          (Ok (getPublicUrl (he_supabase_url env) ''heygen-videos'' (heygen_fileName videoId)),
           w\<lparr>storage := st\<rparr>))"

definition heygen_finish ::
  "heygen_env \<Rightarrow> heygen_payload \<Rightarrow> json \<Rightarrow> json \<Rightarrow> heygen_payload world \<Rightarrow>
   http_response res \<times> heygen_payload world"
where
  "heygen_finish env payload videoId completed w =
     (if opt_field completed ''status'' = JStr ''failed'' then
        (Ret \<lparr>rs_status = 500,
              rs_body = [(''error'', JStr ''HeyGen video generation failed''),
                         (''video_id'', opt_field completed ''video_id''),
                         (''reason'', nullish (opt_field completed ''error'')
                                        (JStr ''HeyGen returned a failure status.''))]\<rparr>, w)
      else if \<not> truthy (opt_field completed ''video_url'') then
        (Err ''HeyGen returned completed status but no video_url.'', w)
      else (case fetch ''GET'' (to_str (opt_field completed ''video_url'')) [] None (he_video env) w of
              (Inl e, w1) \<Rightarrow> (Err e, w1)
            | (Inr videoRes, w1) \<Rightarrow>
                if \<not> r_ok videoRes then
                  (Err (''Failed to download video from HeyGen: '' @ r_body videoRes), w1)
                else (case heygen_materialize env videoId (r_body videoRes) w1 of
                        (Err e, w2) \<Rightarrow> (Err e, w2)
                      | (Ret r, w2) \<Rightarrow> (Ret r, w2)
                      | (Ok url, w2) \<Rightarrow>
                          (Ok \<lparr>rs_status = 200,
                               rs_body = [(''success'', JBool True),
                                          (''video_id'', videoId),
                                          (''avatar_id'', hp_avatar_id payload),
                                          (''voice_id'', hp_voice_id payload),
                                          (''dimension'', JObj [(''width'', JNum (hp_width payload)),
                                                                (''height'', JNum (hp_height payload))]),
                                          (''video_url'', JStr url)]\<rparr>, w2))))"

definition heygen_handler ::
  "heygen_env \<Rightarrow> heygen_request \<Rightarrow> heygen_payload world \<Rightarrow>
   (http_response \<times> heygen_payload world) option"
where
  "heygen_handler env req w =
     (case heygen_validate req of
        Some resp \<Rightarrow> Some (resp, w)
      | None \<Rightarrow>
          (case heygen_resolve_ids env req w of
             ((avatar_id, voice_id), w1) \<Rightarrow>
               (let payload = heygen_build_payload req avatar_id voice_id in
                case heygen_submit env req payload w1 of
                  (Err e, w2) \<Rightarrow> Some (catch500 e, w2)
                | (Ret r, w2) \<Rightarrow> Some (r, w2)
                | (Ok videoId, w2) \<Rightarrow>
                    (case heygen_pollUntilComplete (he_polls env) (to_str videoId)
                            (default_to [] (h_heygen_api_key req)) heygen_maxWaitMs heygen_intervalMs w2 of
                       None \<Rightarrow> None
                     | Some (Inl e, n, w3) \<Rightarrow> Some (catch500 e, w3)
                     | Some (Inr completed, n, w3) \<Rightarrow>
                         (case heygen_finish env payload videoId completed w3 of
                            (r, w4) \<Rightarrow> Some (respond r, w4))))))"

section \<open>kling-video\<close>

definition KLING_BASE_URL :: string where
  "KLING_BASE_URL = ''https://api.klingai.com''"

record kling_request =
  k_access_key :: "string option"
  k_secret_key :: "string option"
  k_prompt :: "string option"
  k_negative_prompt :: "string option"
  k_model_name :: "string option"
  k_mode :: "string option"
  k_duration :: "int option"
  k_aspect_ratio :: "string option"
  k_cfg_scale :: "rat option"
  k_image_url :: "string option"
  k_image_tail_url :: "string option"
  k_camera_type :: "string option"
  k_camera_horizontal :: "int option"
  k_camera_vertical :: "int option"
  k_camera_pan :: "int option"
  k_camera_tilt :: "int option"
  k_camera_roll :: "int option"
  k_camera_zoom :: "int option"

record kling_camera =
  kc_type :: string
  kc_horizontal :: int
  kc_vertical :: int
  kc_pan :: int
  kc_tilt :: int
  kc_roll :: int
  kc_zoom :: int

record kling_payload =
  kp_model_name :: string
  kp_prompt :: string
  kp_mode :: string
  kp_duration :: string
  kp_aspect_ratio :: string
  kp_cfg_scale :: rat
  kp_negative_prompt :: "string option"
  kp_image :: "string option"
  kp_image_tail :: "string option"
  kp_camera_control :: "kling_camera option"

text \<open>\<open>ke_hmac key message\<close> is the platform's HMAC-SHA256
  (\<open>crypto.subtle.importKey\<close> and \<open>crypto.subtle.sign\<close>), taken as given.\<close>

record kling_env =
  ke_hmac :: "string \<Rightarrow> string \<Rightarrow> string"
  ke_create :: response
  ke_polls :: "nat \<Rightarrow> response"

subsection \<open>generateJWT\<close>

definition jwt_header :: json where
  "jwt_header = JObj [(''alg'', JStr ''HS256''), (''typ'', JStr ''JWT'')]"

definition jwt_payload :: "string \<Rightarrow> int \<Rightarrow> json" where
  "jwt_payload accessKey nowS =
     JObj [(''iss'', JStr accessKey), (''exp'', JNum (nowS + 1800)), (''nbf'', JNum (nowS - 5))]"

text \<open>\<open>dateNow\<close> is the value of \<open>Date.now()\<close> (milliseconds) when the token is made.\<close>

definition generateJWT :: "(string \<Rightarrow> string \<Rightarrow> string) \<Rightarrow> string \<Rightarrow> string \<Rightarrow> int \<Rightarrow> string" where
  "generateJWT hmac accessKey secretKey dateNow =
     (let header = base64url (stringify jwt_header);
          nowS = dateNow div 1000;
          payload = base64url (stringify (jwt_payload accessKey nowS));
          signingInput = header @ ''.'' @ payload;
          signature = hmac secretKey signingInput;
          sigB64 = base64url signature
      in signingInput @ ''.'' @ sigB64)"

subsection \<open>createVideoTask\<close>

text \<open>Truthiness of an optional string: \<open>!!body.image_url\<close>.\<close>

definition given :: "string option \<Rightarrow> bool" where
  "given x = (case x of None \<Rightarrow> False | Some s \<Rightarrow> s \<noteq> [])"

definition kling_build_payload :: "kling_request \<Rightarrow> kling_payload" where
  "kling_build_payload body =
     (let isImageToVideo = given (k_image_url body) in
      \<lparr>kp_model_name = default_to ''kling-v1-6'' (k_model_name body),
       kp_prompt = default_to [] (k_prompt body),
       kp_mode = default_to ''std'' (k_mode body),
       kp_duration = show_int (default_to 5 (k_duration body)),
       kp_aspect_ratio = default_to ''16:9'' (k_aspect_ratio body),
       kp_cfg_scale = default_to (1 / 2) (k_cfg_scale body),
       kp_negative_prompt = (if given (k_negative_prompt body) then k_negative_prompt body else None),
       kp_image = (if isImageToVideo then k_image_url body else None),
       kp_image_tail =
         (if isImageToVideo \<and> given (k_image_tail_url body) then k_image_tail_url body else None),
       kp_camera_control =
         (if \<not> isImageToVideo \<and> given (k_camera_type body)
          then Some \<lparr>kc_type = default_to [] (k_camera_type body),
                     kc_horizontal = default_to 0 (k_camera_horizontal body),
                     kc_vertical = default_to 0 (k_camera_vertical body),
                     kc_pan = default_to 0 (k_camera_pan body),
                     kc_tilt = default_to 0 (k_camera_tilt body),
                     kc_roll = default_to 0 (k_camera_roll body),
                     kc_zoom = default_to 0 (k_camera_zoom body)\<rparr>
          else None)\<rparr>)"

definition kling_create_url :: "bool \<Rightarrow> string" where
  "kling_create_url isImageToVideo =
     (if isImageToVideo then KLING_BASE_URL @ ''/v1/videos/image2video''
      else KLING_BASE_URL @ ''/v1/videos/text2video'')"

definition createVideoTask ::
  "kling_env \<Rightarrow> kling_request \<Rightarrow> string \<Rightarrow> kling_payload world \<Rightarrow> (string + json) \<times> kling_payload world"
where
  "createVideoTask env body jwt w =
     (case fetch ''POST'' (kling_create_url (given (k_image_url body))) (''Bearer '' @ jwt)
             (Some (kling_build_payload body)) (ke_create env) w of
        (Inl e, w1) \<Rightarrow> (Inl e, w1)
      | (Inr res, w1) \<Rightarrow>
          if \<not> r_ok res then
            (Inl (''Kling task creation failed ('' @ show_int (int (r_status res)) @ ''): '' @ r_body res), w1)
          else (case read_json res of
                  Inl e \<Rightarrow> (Inl e, w1)
                | Inr data \<Rightarrow>
                    (case field data ''code'' of
                       Inl e \<Rightarrow> (Inl e, w1)
                     | Inr code \<Rightarrow>
                         if code \<noteq> JNum 0 then
                           (Inl (''Kling API error: ''
                                 @ to_str (nullish (opt_field data ''message'') (JStr (stringify data)))), w1)
                         else (let taskId = opt_field (opt_field data ''data'') ''task_id'' in
                               if \<not> truthy taskId then (Inl ''No task_id returned from Kling API'', w1)
                               else (Inr taskId, w1)))))"

subsection \<open>pollTask\<close>

text \<open>The result is \<open>(video_url, cover_image_url, duration)\<close>.\<close>

definition kling_classify :: "response \<Rightarrow> (json \<times> json \<times> json) step" where
  "kling_classify res =
     (if \<not> r_ok res then
        Throw (''Kling poll failed ('' @ show_int (int (r_status res)) @ ''): '' @ r_body res)
      else case read_json res of
        Inl e \<Rightarrow> Throw e
      | Inr data \<Rightarrow>
          (case field data ''code'' of
             Inl e \<Rightarrow> Throw e
           | Inr code \<Rightarrow>
               if code \<noteq> JNum 0 then Throw (''Kling poll error: '' @ to_str (opt_field data ''message''))
               else (let task = opt_field data ''data'';
                         status = opt_field task ''task_status''
                     in if status = JStr ''succeed'' then
                          (let videos = nullish (opt_field (opt_field task ''task_result'') ''videos'') (JArr [])
                           in if \<not> truthy (opt_field videos ''length'')
                              then Throw ''Task succeeded but no videos returned.''
                              else (case field (opt_first videos) ''url'' of
                                      Inl e \<Rightarrow> Throw e
                                    | Inr url \<Rightarrow>
                                        Return (url,
                                                nullish (opt_field (opt_first videos) ''cover_image_url'') (JStr []),
                                                nullish (opt_field (opt_first videos) ''duration'') (JStr ''5''))))
                        else if status = JStr ''failed'' then
                          Throw (''Kling video generation failed: ''
                                 @ to_str (nullish (opt_field task ''task_status_msg'') (JStr ''Unknown error'')))
                        else Continue)))"

definition kling_maxWaitMs :: int where "kling_maxWaitMs = 15 * 60 * 1000"
definition kling_intervalMs :: int where "kling_intervalMs = 10000"

definition kling_poll_url :: "bool \<Rightarrow> string \<Rightarrow> string" where
  "kling_poll_url isImageToVideo taskId =
     (if isImageToVideo then KLING_BASE_URL @ ''/v1/videos/image2video/'' @ taskId
      else KLING_BASE_URL @ ''/v1/videos/text2video/'' @ taskId)"

definition pollTask ::
  "(nat \<Rightarrow> response) \<Rightarrow> string \<Rightarrow> string \<Rightarrow> bool \<Rightarrow> int \<Rightarrow> int \<Rightarrow> kling_payload world \<Rightarrow>
   ((string + json \<times> json \<times> json) \<times> nat \<times> kling_payload world) option"
where
  "pollTask resps taskId jwt isImageToVideo maxWaitMs intervalMs w =
     poll kling_classify resps (kling_poll_url isImageToVideo taskId) (''Bearer '' @ jwt)
       ''Kling task timed out (15 min limit reached).'' maxWaitMs intervalMs w"

subsection \<open>The handler\<close>

definition kling_validate :: "kling_request \<Rightarrow> http_response option" where
  "kling_validate body =
     (if blank (k_access_key body) then Some (bad_request ''access_key is required'')
      else if blank (k_secret_key body) then Some (bad_request ''secret_key is required'')
      else if blank (k_prompt body) then Some (bad_request ''prompt is required'')
      else if int (length (default_to [] (k_prompt body))) > 2500
        then Some (bad_request ''prompt must be under 2500 characters'')
      else if (case k_duration body of None \<Rightarrow> False | Some d \<Rightarrow> d \<noteq> 0 \<and> d \<noteq> 5 \<and> d \<noteq> 10)
        then Some (bad_request ''duration must be 5 or 10'')
      else if (case k_cfg_scale body of None \<Rightarrow> False | Some c \<Rightarrow> c < 0 \<or> c > 1)
        then Some (bad_request ''cfg_scale must be between 0 and 1'')
      else if k_model_name body = Some ''kling-v2-1-master'' \<and> k_mode body = Some ''std''
        then Some (bad_request ''kling-v2-1-master only supports mode: pro'')
      else None)"

text \<open>Step 4 of the handler:
  \<^verbatim>\<open>
  let currentJwt = jwt;
  const jwtRefreshAt = Date.now() + 25 * 60 * 1000;
  const pollWithJwtRefresh = async () => {
    if (Date.now() > jwtRefreshAt) {
      currentJwt = await generateJWT(access_key, secret_key);
    }
    return pollTask(taskId, currentJwt, isImageToVideo);
  };
  const result = await pollWithJwtRefresh();
  \<close>\<close>

definition pollWithJwtRefresh ::
  "kling_env \<Rightarrow> kling_request \<Rightarrow> string \<Rightarrow> string \<Rightarrow> kling_payload world \<Rightarrow>
   ((string + json \<times> json \<times> json) \<times> nat \<times> kling_payload world) option"
where
  "pollWithJwtRefresh env body jwt taskId w =
     (let access_key = default_to [] (k_access_key body);
          secret_key = default_to [] (k_secret_key body);
          jwtRefreshAt = now w + 25 * 60 * 1000;
          (currentJwt, w1) =
            (if now w > jwtRefreshAt
             then (generateJWT (ke_hmac env) access_key secret_key (now w),
                   emit (Sign access_key secret_key (now w div 1000)) w)
             else (jwt, w))
      in pollTask (ke_polls env) taskId currentJwt (given (k_image_url body))
           kling_maxWaitMs kling_intervalMs w1)"

definition kling_handler ::
  "kling_env \<Rightarrow> kling_request \<Rightarrow> kling_payload world \<Rightarrow> (http_response \<times> kling_payload world) option"
where
  "kling_handler env body w =
     (case kling_validate body of
        Some resp \<Rightarrow> Some (resp, w)
      | None \<Rightarrow>
          (let access_key = default_to [] (k_access_key body);
               secret_key = default_to [] (k_secret_key body);
               jwt = generateJWT (ke_hmac env) access_key secret_key (now w);
               w1 = emit (Sign access_key secret_key (now w div 1000)) w
           in case createVideoTask env body jwt w1 of
                (Inl e, w2) \<Rightarrow> Some (catch500 e, w2)
              | (Inr taskId, w2) \<Rightarrow>
                  (case pollWithJwtRefresh env body jwt (to_str taskId) w2 of
                     None \<Rightarrow> None
                   | Some (Inl e, n, w3) \<Rightarrow> Some (catch500 e, w3)
                   | Some (Inr (video_url, cover_image_url, duration), n, w3) \<Rightarrow>
                       Some (\<lparr>rs_status = 200,
                              rs_body = [(''success'', JBool True),
                                         (''task_id'', taskId),
                                         (''mode'', JStr (if given (k_image_url body)
                                                          then ''image-to-video'' else ''text-to-video'')),
                                         (''model'', JStr (default_to ''kling-v1-6'' (k_model_name body))),
                                         (''video_url'', video_url),
                                         (''cover_image_url'', cover_image_url),
                                         (''duration'', duration),
                                         (''prompt'', JStr (default_to [] (k_prompt body)))]\<rparr>, w3))))"

section \<open>openai-transcript-generation\<close>













subsection \<open>fetchAudioBlob\<close>





subsection \<open>transcribeWithWhisper\<close>





subsection \<open>The handler\<close>







section \<open>Concrete answers and worlds used in the examples\<close>

definition start_world :: "'p world" where
  "start_world = \<lparr>now = 0, trace = [], storage = []\<rparr>"

definition ok_json :: "json \<Rightarrow> response" where
  "ok_json j =
     \<lparr>r_error = None, r_ok = True, r_status = 200, r_statusText = ''OK'', r_body = [],
      r_json = Some j, r_ctype = Some ''application/json'', r_latency = 0\<rparr>"

definition ok_bytes :: "string \<Rightarrow> string \<Rightarrow> response" where
  "ok_bytes ctype bytes =
     \<lparr>r_error = None, r_ok = True, r_status = 200, r_statusText = ''OK'', r_body = bytes,
      r_json = None, r_ctype = Some ctype, r_latency = 0\<rparr>"

definition http_failure :: "nat \<Rightarrow> string \<Rightarrow> response" where
  "http_failure code body =
     \<lparr>r_error = None, r_ok = False, r_status = code, r_statusText = [], r_body = body,
      r_json = None, r_ctype = Some ''text/plain'', r_latency = 0\<rparr>"

text \<open>Which events of a trace a poll loop for \<open>url\<close> with \<open>cred\<close> may add.\<close>

definition poll_event :: "string \<Rightarrow> string \<Rightarrow> (int \<times> 'p event) \<Rightarrow> bool" where
  "poll_event url cred te =
     (case snd te of
        Sleep ms \<Rightarrow> True
      | Fetch m u c p \<Rightarrow> m = ''GET'' \<and> u = url \<and> c = cred \<and> p = None
      | _ \<Rightarrow> False)"




text \<open>A Veo run in which every call succeeds, and the same for Sora and HeyGen.\<close>

definition veo_operation_done :: json where
  "veo_operation_done =
     JObj [(''name'', JStr ''operations/abc123''), (''done'', JBool True),
           (''response'', JObj [(''generateVideoResponse'',
              JObj [(''generatedSamples'',
                JArr [JObj [(''video'', JObj [(''uri'', JStr ''https://files.example.com/v/1'')])]])])])]"

definition veo_env_ok :: veo_env where
  "veo_env_ok =
     \<lparr>ve_image = ok_bytes ''image/png'' ''png'',
      ve_create = ok_json (JObj [(''name'', JStr ''operations/abc123'')]),
      ve_polls = (\<lambda>k. ok_json veo_operation_done),
      ve_video = ok_bytes ''video/mp4'' ''mp4'',
      ve_upload_fault = None,
      ve_supabase_url = ''https://xyz.supabase.co''\<rparr>"

definition sora_job_done :: json where
  "sora_job_done =
     JObj [(''id'', JStr ''video_abc123''), (''status'', JStr ''completed''), (''model'', JStr ''sora-2''),
           (''progress'', JNum 100), (''seconds'', JStr ''5''), (''size'', JStr ''1280x720'')]"

definition sora_env_ok :: sora_env where
  "sora_env_ok =
     \<lparr>se_image = ok_bytes ''image/jpeg'' ''jpg'',
      se_create = ok_json (JObj [(''id'', JStr ''video_abc123''), (''status'', JStr ''queued'')]),
      se_polls = (\<lambda>k. ok_json sora_job_done),
      se_video = ok_bytes ''video/mp4'' ''mp4'',
      se_upload_fault = None,
      se_supabase_url = ''https://xyz.supabase.co''\<rparr>"

definition heygen_env_ok :: heygen_env where
  "heygen_env_ok =
     \<lparr>he_avatars = ok_json (JObj [(''data'', JObj [(''avatars'', JArr [JObj [(''avatar_id'', JStr ''Anna'')]])])]),
      he_voices = ok_json (JObj [(''data'', JObj [(''voices'',
                    JArr [JObj [(''voice_id'', JStr ''v-fr''), (''language'', JStr ''French'')],
                          JObj [(''voice_id'', JStr ''v-en''), (''language'', JStr ''English'')]])])]),
      he_create = ok_json (JObj [(''data'', JObj [(''video_id'', JStr ''vid42'')])]),
      he_polls = (\<lambda>k. ok_json (JObj [(''data'', JObj [(''video_id'', JStr ''vid42''),
                    (''status'', JStr ''completed''),
                    (''video_url'', JStr ''https://files.example.com/h/42'')])])),
      he_video = ok_bytes ''video/mp4'' ''mp4'',
      he_upload_fault = None,
      he_supabase_url = ''https://xyz.supabase.co''\<rparr>"

text \<open>Minimal requests, and runs in which the finished job names no video, or the
  download of the video is refused.\<close>

definition veo_req_min :: veo_request where
  "veo_req_min =
     \<lparr>v_gemini_api_key = Some ''g-key'', v_prompt = Some ''A lion in the savannah'', v_model = None,
      v_aspect_ratio = None, v_resolution = None, v_duration_seconds = None, v_negative_prompt = None,
      v_image_url = None, v_person_generation = None\<rparr>"

definition veo_done_no_uri :: json where
  "veo_done_no_uri = JObj [(''name'', JStr ''operations/abc123''), (''done'', JBool True)]"

definition veo_env_no_uri :: veo_env where
  "veo_env_no_uri = veo_env_ok\<lparr>ve_polls := (\<lambda>k. ok_json veo_done_no_uri)\<rparr>"

definition veo_env_download_fails :: veo_env where
  "veo_env_download_fails = veo_env_ok\<lparr>ve_video := http_failure 403 ''forbidden''\<rparr>"

definition heygen_req_min :: heygen_request where
  "heygen_req_min =
     \<lparr>h_heygen_api_key = Some ''h-key'', h_script = Some ''Hello there'', h_avatar_id = None,
      h_voice_id = None, h_avatar_style = None, h_width = None, h_height = None,
      h_background_color = None, h_title = None, h_speed = None\<rparr>"

definition heygen_done_no_url :: json where
  "heygen_done_no_url = JObj [(''video_id'', JStr ''vid42''), (''status'', JStr ''completed'')]"

definition heygen_env_no_url :: heygen_env where
  "heygen_env_no_url = heygen_env_ok\<lparr>he_polls := (\<lambda>k. ok_json (JObj [(''data'', heygen_done_no_url)]))\<rparr>"

text \<open>The spec's \<open>normalize\<close> for an endpoint is the part of its handler before the
  submission: the validation (step 1) and the making of the payload (step 2), with the
  lookups that step makes.\<close>

definition veo_normalize ::
  "veo_env \<Rightarrow> veo_request \<Rightarrow> veo_payload world \<Rightarrow> veo_payload res \<times> veo_payload world"
where
  "veo_normalize env req w =
     (case veo_validate req of
        Some resp \<Rightarrow> (Ret resp, w)
      | None \<Rightarrow> veo_build_payload env req w)"

definition heygen_normalize ::
  "heygen_env \<Rightarrow> heygen_request \<Rightarrow> heygen_payload world \<Rightarrow> heygen_payload res \<times> heygen_payload world"
where
  "heygen_normalize env req w =
     (case heygen_validate req of
        Some resp \<Rightarrow> (Ret resp, w)
      | None \<Rightarrow>
          (case heygen_resolve_ids env req w of
             ((avatar_id, voice_id), w1) \<Rightarrow> (Ok (heygen_build_payload req avatar_id voice_id), w1)))"

text \<open>The HeyGen catalogs are down.\<close>

definition heygen_env_catalog_down :: heygen_env where
  "heygen_env_catalog_down =
     heygen_env_ok\<lparr>he_avatars := http_failure 503 ''unavailable'',
                    he_voices := http_failure 503 ''unavailable''\<rparr>"

text \<open>A HeyGen request that names its avatar and its voice.\<close>

definition heygen_req_ids :: heygen_request where
  "heygen_req_ids = heygen_req_min\<lparr>h_avatar_id := Some '' Anna '', h_voice_id := Some ''v-en''\<rparr>"


text \<open>The events a run added to the trace it started with.\<close>

definition new_events :: "'p world \<Rightarrow> 'p world \<Rightarrow> (int \<times> 'p event) list" where
  "new_events w w' = drop (length (trace w)) (trace w')"


text \<open>A Sora run in which the provider accepts the submission with a body that has no
  \<open>id\<close>, and answers the status query for the job \<open>undefined\<close> with 404.\<close>

definition sora_req_min :: sora_request where
  "sora_req_min =
     \<lparr>s_openai_api_key = Some ''sk-test'', s_prompt = Some ''A cat on a skateboard'', s_model = None,
      s_size = None, s_seconds = None, s_input_reference_url = None\<rparr>"

definition sora_env_no_id :: sora_env where
  "sora_env_no_id =
     sora_env_ok\<lparr>se_create := ok_json (JObj [(''status'', JStr ''queued'')]),
                  se_polls := (\<lambda>k. http_failure 404 ''no such video'')\<rparr>"

text \<open>A Kling request for the master model that leaves the mode out, and a provider that
  refuses the task.\<close>

definition kling_req_min :: kling_request where
  "kling_req_min =
     \<lparr>k_access_key = Some ''ak'', k_secret_key = Some ''sk'', k_prompt = Some ''A cat on a skateboard'',
      k_negative_prompt = None, k_model_name = None, k_mode = None, k_duration = None,
      k_aspect_ratio = None, k_cfg_scale = None, k_image_url = None, k_image_tail_url = None,
      k_camera_type = None, k_camera_horizontal = None, k_camera_vertical = None, k_camera_pan = None,
      k_camera_tilt = None, k_camera_roll = None, k_camera_zoom = None\<rparr>"

definition kling_req_master :: kling_request where
  "kling_req_master = kling_req_min\<lparr>k_model_name := Some ''kling-v2-1-master''\<rparr>"

definition kling_env_reject :: kling_env where
  "kling_env_reject =
     \<lparr>ke_hmac = (\<lambda>k m. ''sig''),
      ke_create = http_failure 400 ''mode std is not supported by this model'',
      ke_polls = (\<lambda>k. http_failure 404 ''no such task'')\<rparr>"

text \<open>A Kling run in which the provider answers the task creation after 24 minutes and 55
  seconds; the task is being processed at the first status query and has succeeded at the
  second.\<close>

definition kling_env_slow :: kling_env where
  "kling_env_slow =
     \<lparr>ke_hmac = (\<lambda>k m. ''sig''),
      ke_create = (ok_json (JObj [(''code'', JNum 0), (''data'', JObj [(''task_id'', JStr ''t1'')])]))
                    \<lparr>r_latency := 1495000\<rparr>,
      ke_polls = (\<lambda>k. if k = 0
                      then ok_json (JObj [(''code'', JNum 0),
                                          (''data'', JObj [(''task_status'', JStr ''processing'')])])
                      else ok_json (JObj [(''code'', JNum 0),
                                          (''data'', JObj [(''task_status'', JStr ''succeed''),
                                             (''task_result'', JObj [(''videos'',
                                                JArr [JObj [(''url'', JStr ''https://cdn.example.com/t1.mp4''),
                                                            (''duration'', JStr ''5'')]])])])]))\<rparr>"

text \<open>The status queries of a trace, each with its time and its credential; and the
  seconds at which tokens were signed.\<close>

fun poll_calls :: "(int \<times> 'p event) list \<Rightarrow> (int \<times> string) list" where
  "poll_calls [] = []"
| "poll_calls ((t, Fetch m url cred p) # es) =
     (if m = ''GET'' then (t, cred) # poll_calls es else poll_calls es)"
| "poll_calls (e # es) = poll_calls es"

fun signings :: "(int \<times> 'p event) list \<Rightarrow> int list" where
  "signings [] = []"
| "signings ((t, Sign accessKey secretKey s) # es) = s # signings es"
| "signings (e # es) = signings es"




text \<open>A Kling run in which the task has succeeded at the first status query and its one
  video entry has a duration but no \<open>url\<close>.\<close>

definition kling_env_no_url :: kling_env where
  "kling_env_no_url =
     \<lparr>ke_hmac = (\<lambda>k m. ''sig''),
      ke_create = ok_json (JObj [(''code'', JNum 0), (''data'', JObj [(''task_id'', JStr ''t1'')])]),
      ke_polls = (\<lambda>k. ok_json (JObj [(''code'', JNum 0),
                                      (''data'', JObj [(''task_status'', JStr ''succeed''),
                                         (''task_result'', JObj [(''videos'',
                                            JArr [JObj [(''duration'', JStr ''5'')]])])])]))\<rparr>"

section \<open>Properties of the poll loop\<close>


lemma fetch_sleep_trace:
  "trace (snd (fetch m url cred p res (sleep ms w))) =
     trace w @ [(now w, Sleep ms), (now w + ms, Fetch m url cred p)]"
  "storage (snd (fetch m url cred p res (sleep ms w))) = storage w"
  by (simp_all add: fetch_def sleep_def advance_def emit_def Let_def split: option.splits)


text \<open>The loop only appends sleeps and status queries for its own URL, all carrying the
  one credential it was called with; it never touches the storage.\<close>

lemma pollLoop_extends:
  assumes "pollLoop classify resps url cred tmsg deadline intervalMs i w = Some y"
  shows "\<exists>es. trace (snd (snd y)) = trace w @ es \<and> list_all (poll_event url cred) es
            \<and> storage (snd (snd y)) = storage w"
proof (rule pollLoop.raw_induct
    [where P = "\<lambda>classify resps url cred tmsg deadline intervalMs i w y.
        \<exists>es. trace (snd (snd y)) = trace w @ es \<and> list_all (poll_event url cred) es
            \<and> storage (snd (snd y)) = storage w", OF _ assms])
  fix f classify resps url cred timeoutMsg deadline intervalMs i and w :: "'b world" and y
  assume IH: "\<And>classify resps url cred tmsg deadline intervalMs i (w :: 'b world) y.
        f classify resps url cred tmsg deadline intervalMs i w = Some y \<Longrightarrow>
        \<exists>es. trace (snd (snd y)) = trace w @ es \<and> list_all (poll_event url cred) es
            \<and> storage (snd (snd y)) = storage w"
    and body: "(if now w < deadline
      then case fetch ''GET'' url cred None (resps i) (sleep intervalMs w) of
           (Inl err, w1) \<Rightarrow> Some (Inl err, Suc i, w1)
           | (Inr res, w1) \<Rightarrow>
               (case classify res of
               Continue \<Rightarrow> f classify resps url cred timeoutMsg deadline intervalMs (Suc i) w1
               | Return r \<Rightarrow> Some (Inr r, Suc i, w1)
               | Throw err \<Rightarrow> Some (Inl err, Suc i, w1))
      else Some (Inl timeoutMsg, i, w)) = Some y"
  show "\<exists>es. trace (snd (snd y)) = trace w @ es \<and> list_all (poll_event url cred) es
            \<and> storage (snd (snd y)) = storage w"
  proof (cases "now w < deadline")
    case False
    then show ?thesis using body by auto
  next
    case True
    obtain o1 w1 where f: "fetch ''GET'' url cred None (resps i) (sleep intervalMs w) = (o1, w1)"
      by (cases "fetch ''GET'' url cred None (resps i) (sleep intervalMs w)") auto
    have t1: "trace w1 = trace w @ [(now w, Sleep intervalMs), (now w + intervalMs, Fetch ''GET'' url cred None)]"
      and s1: "storage w1 = storage w"
      using fetch_sleep_trace [of "''GET''" url cred None "resps i" intervalMs w] f by simp_all
    have pe: "list_all (poll_event url cred)
                [(now w, Sleep intervalMs), (now w + intervalMs, Fetch ''GET'' url cred None)]"
      by (simp add: poll_event_def)
    show ?thesis
    proof (cases o1)
      case (Inl err)
      then show ?thesis using True f body t1 s1 pe by auto
    next
      case (Inr res)
      show ?thesis
      proof (cases "classify res")
        case Continue
        then have "f classify resps url cred timeoutMsg deadline intervalMs (Suc i) w1 = Some y"
          using True f Inr body by simp
        from IH [OF this] obtain es where
          "trace (snd (snd y)) = trace w1 @ es" "list_all (poll_event url cred) es"
          "storage (snd (snd y)) = storage w1" by blast
        then show ?thesis using t1 s1 pe by auto
      next
        case (Return x)
        then show ?thesis using True f Inr body t1 s1 pe by auto
      next
        case (Throw x)
        then show ?thesis using True f Inr body t1 s1 pe by auto
      qed
    qed
  qed
qed


















section \<open>The signed credential\<close>





text \<open>A token as the function prints it, for one instant and one pair of keys (the
  signature function is a stand-in).\<close>

lemma generateJWT_example:
  "generateJWT (\<lambda>k m. ''sig'') ''ak'' ''sk'' 1700000000123 =
     ''eyJhbGciOiJIUzI1NiIsInR5cCI6IkpXVCJ9.eyJpc3MiOiJhayIsImV4cCI6MTcwMDAwMTgwMCwibmJmIjoxNjk5OTk5OTk1fQ.c2ln''"
  by code_simp


section \<open>The transcript endpoint\<close>


lemma fetch_result:
  "fst (fetch m url cred p res w) = (case r_error res of Some e \<Rightarrow> Inl e | None \<Rightarrow> Inr res)"
  by (simp add: fetch_def Let_def split: option.splits)

















section \<open>Materialization\<close>

lemma upsert_keys:
  "map fst (map (\<lambda>e. if fst e = key then (key, bytes) else e) st) = map fst st"
  by (induction st) auto

lemma upsert_lookup:
  "key \<in> set (map fst st) \<Longrightarrow> map_of (map (\<lambda>e. if fst e = key then (key, bytes) else e) st) key = Some bytes"
  by (induction st) auto

lemma storage_upload_upsert:
  "\<exists>st'. storage_upload None bucket k bytes True st = (None, st')
         \<and> has_object st' bucket k
         \<and> map_of st' (bucket, k) = Some bytes
         \<and> (has_object st bucket k \<longrightarrow> map fst st' = map fst st)
         \<and> (distinct (map fst st) \<longrightarrow> distinct (map fst st'))"
proof (cases "has_object st bucket k")
  case True
  define st' where "st' = map (\<lambda>e. if fst e = (bucket, k) then ((bucket, k), bytes) else e) st"
  have k: "map fst st' = map fst st"
    unfolding st'_def by (rule upsert_keys)
  have l: "map_of st' (bucket, k) = Some bytes"
    unfolding st'_def using True by (intro upsert_lookup) (simp add: has_object_def)
  have u: "storage_upload None bucket k bytes True st = (None, st')"
    using True by (simp add: storage_upload_def st'_def)
  have h: "has_object st' bucket k"
    using True k by (simp add: has_object_def)
  show ?thesis using u h l k by simp
next
  case False
  then have "map_of st (bucket, k) = None"
    by (simp add: has_object_def map_of_eq_None_iff)
  then show ?thesis using False
    by (auto simp: storage_upload_def has_object_def map_add_def)
qed

lemma veo_fileName_safe: "CHR ''/'' \<notin> set (veo_fileName name)"
  by (auto simp: veo_fileName_def)

lemma veo_materialize_twice:
  assumes "ve_upload_fault env = None"
  shows "\<exists>w1 w2.
        veo_materialize env (JStr name) b1 w
          = (Ok (getPublicUrl (ve_supabase_url env) ''veo-videos'' (veo_fileName name)), w1)
      \<and> veo_materialize env (JStr name) b2 w1
          = (Ok (getPublicUrl (ve_supabase_url env) ''veo-videos'' (veo_fileName name)), w2)
      \<and> map fst (storage w2) = map fst (storage w1)
      \<and> map_of (storage w2) (''veo-videos'', veo_fileName name) = Some b2
      \<and> (distinct (map fst (storage w)) \<longrightarrow> distinct (map fst (storage w2)))"
proof -
  from storage_upload_upsert [of "''veo-videos''" "veo_fileName name" b1 "storage w"]
  obtain st1 where 1: "storage_upload None ''veo-videos'' (veo_fileName name) b1 True (storage w) = (None, st1)"
    "has_object st1 ''veo-videos'' (veo_fileName name)"
    "distinct (map fst (storage w)) \<longrightarrow> distinct (map fst st1)" by blast
  from storage_upload_upsert [of "''veo-videos''" "veo_fileName name" b2 st1]
  obtain st2 where 2: "storage_upload None ''veo-videos'' (veo_fileName name) b2 True st1 = (None, st2)"
    "map_of st2 (''veo-videos'', veo_fileName name) = Some b2"
    "map fst st2 = map fst st1" using 1(2) by blast
  show ?thesis
    using assms 1 2 by (simp add: veo_materialize_def)
qed

lemma sora_materialize_twice:
  assumes "se_upload_fault env = None"
  shows "\<exists>w1 w2.
        sora_materialize env ident b1 w
          = (Ok (getPublicUrl (se_supabase_url env) ''sora-videos'' (sora_fileName ident)), w1)
      \<and> sora_materialize env ident b2 w1
          = (Ok (getPublicUrl (se_supabase_url env) ''sora-videos'' (sora_fileName ident)), w2)
      \<and> map fst (storage w2) = map fst (storage w1)
      \<and> map_of (storage w2) (''sora-videos'', sora_fileName ident) = Some b2
      \<and> (distinct (map fst (storage w)) \<longrightarrow> distinct (map fst (storage w2)))"
proof -
  from storage_upload_upsert [of "''sora-videos''" "sora_fileName ident" b1 "storage w"]
  obtain st1 where 1: "storage_upload None ''sora-videos'' (sora_fileName ident) b1 True (storage w) = (None, st1)"
    "has_object st1 ''sora-videos'' (sora_fileName ident)"
    "distinct (map fst (storage w)) \<longrightarrow> distinct (map fst st1)" by blast
  from storage_upload_upsert [of "''sora-videos''" "sora_fileName ident" b2 st1]
  obtain st2 where 2: "storage_upload None ''sora-videos'' (sora_fileName ident) b2 True st1 = (None, st2)"
    "map_of st2 (''sora-videos'', sora_fileName ident) = Some b2"
    "map fst st2 = map fst st1" using 1(2) by blast
  show ?thesis
    using assms 1 2 by (simp add: sora_materialize_def)
qed

lemma heygen_materialize_twice:
  assumes "he_upload_fault env = None"
  shows "\<exists>w1 w2.
        heygen_materialize env ident b1 w
          = (Ok (getPublicUrl (he_supabase_url env) ''heygen-videos'' (heygen_fileName ident)), w1)
      \<and> heygen_materialize env ident b2 w1
          = (Ok (getPublicUrl (he_supabase_url env) ''heygen-videos'' (heygen_fileName ident)), w2)
      \<and> map fst (storage w2) = map fst (storage w1)
      \<and> map_of (storage w2) (''heygen-videos'', heygen_fileName ident) = Some b2
      \<and> (distinct (map fst (storage w)) \<longrightarrow> distinct (map fst (storage w2)))"
proof -
  from storage_upload_upsert [of "''heygen-videos''" "heygen_fileName ident" b1 "storage w"]
  obtain st1 where 1: "storage_upload None ''heygen-videos'' (heygen_fileName ident) b1 True (storage w) = (None, st1)"
    "has_object st1 ''heygen-videos'' (heygen_fileName ident)"
    "distinct (map fst (storage w)) \<longrightarrow> distinct (map fst st1)" by blast
  from storage_upload_upsert [of "''heygen-videos''" "heygen_fileName ident" b2 st1]
  obtain st2 where 2: "storage_upload None ''heygen-videos'' (heygen_fileName ident) b2 True st1 = (None, st2)"
    "map_of st2 (''heygen-videos'', heygen_fileName ident) = Some b2"
    "map fst st2 = map fst st1" using 1(2) by blast
  show ?thesis
    using assms 1 2 by (simp add: heygen_materialize_def)
qed

text \<open>
  C3, as the claim states it, fails on the Sora endpoint: the key is the job id followed by
  \<open>.mp4\<close>, and a \<open>/\<close> in the id stays in the key.
\<close>

theorem sora_key_keeps_slash:
  "sora_fileName (JStr ''a/b'') = ''a/b.mp4''
   \<and> CHR ''/'' \<in> set (sora_fileName (JStr ''a/b''))
   \<and> sora_materialize sora_env_ok (JStr ''a/b'') ''mp4'' start_world =
       (Ok ''https://xyz.supabase.co/storage/v1/object/public/sora-videos/a/b.mp4'',
        \<lparr>now = 0, trace = [], storage = [((''sora-videos'', ''a/b.mp4''), ''mp4'')]\<rparr>)"
  by code_simp

text \<open>
  C3, amended. Materializing the same job identifier twice (the storage service
  answering) derives the same storage key and the same public URL both times; the second
  write replaces the content under that key, adds no object and keeps the keys of the
  store distinct. The key is a function of the identifier alone, with the fixed extension
  \<open>.mp4\<close>: the Veo endpoint replaces every \<open>/\<close> of the operation name by \<open>_\<close>, so
  that its key has no \<open>/\<close>; the Sora and HeyGen endpoints use the identifier as it is.
\<close>

theorem materialize_idempotent:
  assumes "ve_upload_fault venv = None" and "se_upload_fault senv = None"
    and "he_upload_fault henv = None"
  shows "(\<exists>w1 w2.
        veo_materialize venv (JStr name) b1 wv
          = (Ok (getPublicUrl (ve_supabase_url venv) ''veo-videos'' (veo_fileName name)), w1)
      \<and> veo_materialize venv (JStr name) b2 w1
          = (Ok (getPublicUrl (ve_supabase_url venv) ''veo-videos'' (veo_fileName name)), w2)
      \<and> map fst (storage w2) = map fst (storage w1)
      \<and> map_of (storage w2) (''veo-videos'', veo_fileName name) = Some b2
      \<and> (distinct (map fst (storage wv)) \<longrightarrow> distinct (map fst (storage w2))))
    \<and> veo_fileName name = map (\<lambda>c. if c = CHR ''/'' then CHR ''_'' else c) name @ ''.mp4''
    \<and> CHR ''/'' \<notin> set (veo_fileName name)
    \<and> (\<exists>w1 w2.
        sora_materialize senv ident b1 ws
          = (Ok (getPublicUrl (se_supabase_url senv) ''sora-videos'' (sora_fileName ident)), w1)
      \<and> sora_materialize senv ident b2 w1
          = (Ok (getPublicUrl (se_supabase_url senv) ''sora-videos'' (sora_fileName ident)), w2)
      \<and> map fst (storage w2) = map fst (storage w1)
      \<and> map_of (storage w2) (''sora-videos'', sora_fileName ident) = Some b2
      \<and> (distinct (map fst (storage ws)) \<longrightarrow> distinct (map fst (storage w2))))
    \<and> sora_fileName ident = to_str ident @ ''.mp4''
    \<and> (\<exists>w1 w2.
        heygen_materialize henv ident b1 wh
          = (Ok (getPublicUrl (he_supabase_url henv) ''heygen-videos'' (heygen_fileName ident)), w1)
      \<and> heygen_materialize henv ident b2 w1
          = (Ok (getPublicUrl (he_supabase_url henv) ''heygen-videos'' (heygen_fileName ident)), w2)
      \<and> map fst (storage w2) = map fst (storage w1)
      \<and> map_of (storage w2) (''heygen-videos'', heygen_fileName ident) = Some b2
      \<and> (distinct (map fst (storage wh)) \<longrightarrow> distinct (map fst (storage w2))))
    \<and> heygen_fileName ident = to_str ident @ ''.mp4''"
  apply (intro conjI)
       apply (rule veo_materialize_twice [OF assms(1)])
      apply (simp add: veo_fileName_def)
     apply (rule veo_fileName_safe)
    apply (rule sora_materialize_twice [OF assms(2)])
   apply (simp add: sora_fileName_def)
   apply (rule heygen_materialize_twice [OF assms(3)])
  apply (simp add: heygen_fileName_def)
  done

theorem materialize_idempotent_witness:
  "ve_upload_fault veo_env_ok = None \<and> se_upload_fault sora_env_ok = None
   \<and> he_upload_fault heygen_env_ok = None
   \<and> (\<exists>w1 w2.
        veo_materialize veo_env_ok (JStr ''operations/abc123'') ''first'' start_world
          = (Ok ''https://xyz.supabase.co/storage/v1/object/public/veo-videos/operations_abc123.mp4'', w1)
      \<and> veo_materialize veo_env_ok (JStr ''operations/abc123'') ''second'' w1
          = (Ok ''https://xyz.supabase.co/storage/v1/object/public/veo-videos/operations_abc123.mp4'', w2)
      \<and> map fst (storage w2) = map fst (storage w1)
      \<and> map_of (storage w2) (''veo-videos'', ''operations_abc123.mp4'') = Some ''second''
      \<and> distinct (map fst (storage w2)))"
proof -
  have f: "ve_upload_fault veo_env_ok = None" "se_upload_fault sora_env_ok = None"
    "he_upload_fault heygen_env_ok = None"
    by (simp_all add: veo_env_ok_def sora_env_ok_def heygen_env_ok_def)
  have k: "veo_fileName ''operations/abc123'' = ''operations_abc123.mp4''"
    by (simp add: veo_fileName_def)
  have u: "getPublicUrl (ve_supabase_url veo_env_ok) ''veo-videos'' ''operations_abc123.mp4''
           = ''https://xyz.supabase.co/storage/v1/object/public/veo-videos/operations_abc123.mp4''"
    by (simp add: getPublicUrl_def veo_env_ok_def)
  have d: "distinct (map fst (storage (start_world :: veo_payload world)))"
    by (simp add: start_world_def)
  from materialize_idempotent [OF f, of "''operations/abc123''" "''first''" start_world "''second''"]
  show ?thesis using f k u d by auto
qed

section \<open>Validation and payload\<close>

text \<open>The handlers start with \<open>normalize\<close>.\<close>

lemma veo_handler_normalize:
  "veo_handler env req w =
     (case veo_normalize env req w of
        (Err e, w1) \<Rightarrow> Some (catch500 e, w1)
      | (Ret r, w1) \<Rightarrow> Some (r, w1)
      | (Ok payload, w1) \<Rightarrow>
          (case veo_submit env req payload w1 of
             (Err e, w2) \<Rightarrow> Some (catch500 e, w2)
           | (Ret r, w2) \<Rightarrow> Some (r, w2)
           | (Ok operationName, w2) \<Rightarrow>
               (case veo_pollUntilComplete (ve_polls env) (to_str operationName)
                       (default_to [] (v_gemini_api_key req)) veo_maxWaitMs veo_intervalMs w2 of
                  None \<Rightarrow> None
                | Some (Inl e, n, w3) \<Rightarrow> Some (catch500 e, w3)
                | Some (Inr completed, n, w3) \<Rightarrow>
                    (case veo_finish env req operationName completed w3 of
                       (r, w4) \<Rightarrow> Some (respond r, w4)))))"
  by (simp add: veo_handler_def veo_normalize_def split: option.splits)

lemma heygen_handler_normalize:
  "heygen_handler env req w =
     (case heygen_normalize env req w of
        (Err e, w1) \<Rightarrow> Some (catch500 e, w1)
      | (Ret r, w1) \<Rightarrow> Some (r, w1)
      | (Ok payload, w1) \<Rightarrow>
          (case heygen_submit env req payload w1 of
             (Err e, w2) \<Rightarrow> Some (catch500 e, w2)
           | (Ret r, w2) \<Rightarrow> Some (r, w2)
           | (Ok videoId, w2) \<Rightarrow>
               (case heygen_pollUntilComplete (he_polls env) (to_str videoId)
                       (default_to [] (h_heygen_api_key req)) heygen_maxWaitMs heygen_intervalMs w2 of
                  None \<Rightarrow> None
                | Some (Inl e, n, w3) \<Rightarrow> Some (catch500 e, w3)
                | Some (Inr completed, n, w3) \<Rightarrow>
                    (case heygen_finish env payload videoId completed w3 of
                       (r, w4) \<Rightarrow> Some (respond r, w4)))))"
  by (simp add: heygen_handler_def heygen_normalize_def Let_def split: option.splits prod.splits)

text \<open>
  C7, as the claim states it, fails on the HeyGen endpoint: the same request, with
  \<open>avatar_id\<close> and \<open>voice_id\<close> left out, gets the first avatar and the English voice of
  the catalog in one evaluation and the hardcoded fallbacks in another where the catalog
  is down.
\<close>

theorem heygen_payload_follows_catalog:
  "fst (heygen_normalize heygen_env_ok heygen_req_min start_world) =
     Ok \<lparr>hp_title = ''Generated Video'', hp_avatar_id = JStr ''Anna'', hp_avatar_style = ''normal'',
         hp_input_text = ''Hello there'', hp_voice_id = JStr ''v-en'', hp_speed = 1,
         hp_background = ''#ffffff'', hp_width = 1280, hp_height = 720\<rparr>
   \<and> fst (heygen_normalize heygen_env_catalog_down heygen_req_min start_world) =
     Ok \<lparr>hp_title = ''Generated Video'', hp_avatar_id = JStr ''Angela-inTshirt-20220820'',
         hp_avatar_style = ''normal'', hp_input_text = ''Hello there'',
         hp_voice_id = JStr ''1bd001e7e50f421d891986aad5158bc8'', hp_speed = 1,
         hp_background = ''#ffffff'', hp_width = 1280, hp_height = 720\<rparr>
   \<and> fst (heygen_normalize heygen_env_ok heygen_req_min start_world)
       \<noteq> fst (heygen_normalize heygen_env_catalog_down heygen_req_min start_world)"
  by code_simp

lemma fetch_fst_world:
  "fst (fetch m url cred p res w1) = fst (fetch m url cred p res w2)"
  by (simp add: fetch_def Let_def split: option.splits)

lemma fetchFirstAvatarId_fst:
  "fst (fetchFirstAvatarId answer key w1) = fst (fetchFirstAvatarId answer key w2)"
  by (simp add: fetchFirstAvatarId_def fetch_def Let_def split: option.splits sum.splits)

lemma fetchFirstVoiceId_fst:
  "fst (fetchFirstVoiceId answer key w1) = fst (fetchFirstVoiceId answer key w2)"
  by (simp add: fetchFirstVoiceId_def fetch_def Let_def split: option.splits sum.splits)

lemma heygen_resolve_ids_fst:
  "fst (heygen_resolve_ids env req w1) = fst (heygen_resolve_ids env req w2)"
proof -
  have a: "fst (fetchFirstAvatarId (he_avatars env) k w1) = fst (fetchFirstAvatarId (he_avatars env) k w2)" for k
    by (rule fetchFirstAvatarId_fst)
  have v: "fst (fetchFirstVoiceId (he_voices env) k x) = fst (fetchFirstVoiceId (he_voices env) k y)" for k x y
    by (rule fetchFirstVoiceId_fst)
  show ?thesis
    unfolding heygen_resolve_ids_def Let_def
    by (auto split: prod.splits simp: a v) (metis a v fst_conv)+
qed


lemma veo_build_payload_fst:
  "fst (veo_build_payload env req w1) = fst (veo_build_payload env req w2)"
  by (simp add: veo_build_payload_def fetch_def Let_def split: option.splits)

text \<open>
  C7, amended. \<open>normalize\<close> is a function of the request and of the answers to its own
  lookups (the HeyGen catalogs when \<open>avatar_id\<close> or \<open>voice_id\<close> is left out or blank, the
  image behind a Veo \<open>image_url\<close>): with the same answers the payload is the same,
  whatever the clock and the trace. When the caller gives both ids (HeyGen), or no image
  URL (Veo), the payload depends on the request alone. Every other optional field the
  caller left out gets its fixed default.
\<close>

theorem normalize_deterministic:
  "fst (heygen_normalize henv hreq whA) = fst (heygen_normalize henv hreq whB)
   \<and> (\<not> blank (h_avatar_id hreq) \<and> \<not> blank (h_voice_id hreq) \<longrightarrow>
        heygen_normalize henvA hreq wh = heygen_normalize henvB hreq wh)
   \<and> fst (veo_normalize venv vreq wvA) = fst (veo_normalize venv vreq wvB)
   \<and> (\<not> given (v_image_url vreq) \<longrightarrow> veo_normalize venvA vreq wv = veo_normalize venvB vreq wv)
   \<and> (h_title hreq = None \<longrightarrow> hp_title (heygen_build_payload hreq a v) = ''Generated Video'')
   \<and> (h_avatar_style hreq = None \<longrightarrow> hp_avatar_style (heygen_build_payload hreq a v) = ''normal'')
   \<and> (h_speed hreq = None \<longrightarrow> hp_speed (heygen_build_payload hreq a v) = 1)
   \<and> (h_background_color hreq = None \<longrightarrow> hp_background (heygen_build_payload hreq a v) = ''#ffffff'')
   \<and> (h_width hreq = None \<longrightarrow> hp_width (heygen_build_payload hreq a v) = 1280)
   \<and> (h_height hreq = None \<longrightarrow> hp_height (heygen_build_payload hreq a v) = 720)
   \<and> (v_aspect_ratio vreq = None \<longrightarrow> vp_aspectRatio (veo_parameters vreq img) = ''16:9'')
   \<and> (v_resolution vreq = None \<longrightarrow> vp_resolution (veo_parameters vreq img) = ''720p'')
   \<and> (v_duration_seconds vreq = None \<longrightarrow> vp_durationSeconds (veo_parameters vreq img) = ''8'')
   \<and> (v_person_generation vreq = None \<longrightarrow> vp_personGeneration (veo_parameters vreq img) = ''allow_all'')"
proof -
  have h1: "fst (heygen_normalize henv hreq whA) = fst (heygen_normalize henv hreq whB)"
    using heygen_resolve_ids_fst [of henv hreq whA whB]
    by (auto simp: heygen_normalize_def split: option.splits prod.splits)
  have h2: "\<not> blank (h_avatar_id hreq) \<and> \<not> blank (h_voice_id hreq) \<longrightarrow>
        heygen_normalize henvA hreq wh = heygen_normalize henvB hreq wh"
    by (simp add: heygen_normalize_def heygen_resolve_ids_def split: option.splits)
  have v1: "fst (veo_normalize venv vreq wvA) = fst (veo_normalize venv vreq wvB)"
    using veo_build_payload_fst [of venv vreq wvA wvB]
    by (simp add: veo_normalize_def split: option.splits)
  have v2: "\<not> given (v_image_url vreq) \<longrightarrow> veo_normalize venvA vreq wv = veo_normalize venvB vreq wv"
    by (simp add: veo_normalize_def veo_build_payload_def given_def split: option.splits)
  have d: "(h_title hreq = None \<longrightarrow> hp_title (heygen_build_payload hreq a v) = ''Generated Video'')
   \<and> (h_avatar_style hreq = None \<longrightarrow> hp_avatar_style (heygen_build_payload hreq a v) = ''normal'')
   \<and> (h_speed hreq = None \<longrightarrow> hp_speed (heygen_build_payload hreq a v) = 1)
   \<and> (h_background_color hreq = None \<longrightarrow> hp_background (heygen_build_payload hreq a v) = ''#ffffff'')
   \<and> (h_width hreq = None \<longrightarrow> hp_width (heygen_build_payload hreq a v) = 1280)
   \<and> (h_height hreq = None \<longrightarrow> hp_height (heygen_build_payload hreq a v) = 720)"
    by (simp add: heygen_build_payload_def default_to_def)
  have e: "(v_aspect_ratio vreq = None \<longrightarrow> vp_aspectRatio (veo_parameters vreq img) = ''16:9'')
   \<and> (v_resolution vreq = None \<longrightarrow> vp_resolution (veo_parameters vreq img) = ''720p'')
   \<and> (v_duration_seconds vreq = None \<longrightarrow> vp_durationSeconds (veo_parameters vreq img) = ''8'')
   \<and> (v_person_generation vreq = None \<longrightarrow> vp_personGeneration (veo_parameters vreq img) = ''allow_all'')"
    by (simp add: veo_parameters_def default_to_def)
  show ?thesis using h1 h2 v1 v2 d e by blast
qed

theorem normalize_deterministic_witness:
  "\<not> blank (h_avatar_id heygen_req_ids) \<and> \<not> blank (h_voice_id heygen_req_ids)
   \<and> heygen_normalize heygen_env_ok heygen_req_ids start_world
       = heygen_normalize heygen_env_catalog_down heygen_req_ids start_world
   \<and> \<not> given (v_image_url veo_req_min)
   \<and> veo_normalize veo_env_ok veo_req_min start_world
       = veo_normalize veo_env_download_fails veo_req_min start_world
   \<and> h_title heygen_req_ids = None
   \<and> hp_title (heygen_build_payload heygen_req_ids (JStr ''Anna'') (JStr ''v-en'')) = ''Generated Video''
   \<and> h_avatar_style heygen_req_ids = None \<and> h_speed heygen_req_ids = None
   \<and> h_background_color heygen_req_ids = None \<and> h_width heygen_req_ids = None
   \<and> h_height heygen_req_ids = None
   \<and> v_aspect_ratio veo_req_min = None \<and> v_resolution veo_req_min = None
   \<and> v_duration_seconds veo_req_min = None \<and> v_person_generation veo_req_min = None
   \<and> vp_resolution (veo_parameters veo_req_min None) = ''720p''"
proof -
  have b: "\<not> blank (h_avatar_id heygen_req_ids) \<and> \<not> blank (h_voice_id heygen_req_ids)"
    by (simp add: heygen_req_ids_def heygen_req_min_def blank_def trim_def is_space_def)
  have g: "\<not> given (v_image_url veo_req_min)"
    by (simp add: veo_req_min_def given_def)
  have n: "h_title heygen_req_ids = None \<and> h_avatar_style heygen_req_ids = None
     \<and> h_speed heygen_req_ids = None \<and> h_background_color heygen_req_ids = None
     \<and> h_width heygen_req_ids = None \<and> h_height heygen_req_ids = None
     \<and> v_aspect_ratio veo_req_min = None \<and> v_resolution veo_req_min = None
     \<and> v_duration_seconds veo_req_min = None \<and> v_person_generation veo_req_min = None"
    by (simp add: heygen_req_ids_def heygen_req_min_def veo_req_min_def)
  note t = normalize_deterministic [where hreq = heygen_req_ids and henvA = heygen_env_ok
      and henvB = heygen_env_catalog_down and wh = start_world and vreq = veo_req_min
      and venvA = veo_env_ok and venvB = veo_env_download_fails and wv = start_world
      and a = "JStr ''Anna''" and v = "JStr ''v-en''" and img = None]
  show ?thesis using t b g n by blast
qed

section \<open>A finished job without a locator\<close>

text \<open>The Veo and HeyGen handlers check the locator of a succeeded job before they ask for
  the video. When the poll loop has returned a succeeded job that names no video, the run
  answers 500 with the no-locator message and the world is the one the poll loop left: no
  download, no upload.\<close>

lemma veo_handler_without_uri:
  assumes "veo_normalize env req w = (Ok payload, w1)"
    and "veo_submit env req payload w1 = (Ok operationName, w2)"
    and "veo_pollUntilComplete (ve_polls env) (to_str operationName)
           (default_to [] (v_gemini_api_key req)) veo_maxWaitMs veo_intervalMs w2
         = Some (Inr completed, n, w3)"
    and "\<not> truthy (opt_field completed ''error'')"
    and "\<not> truthy (veo_videoUri completed)"
  shows "veo_handler env req w
         = Some (catch500 ''Veo returned done=true but no video URI found.'', w3)"
  using assms by (simp add: veo_handler_normalize veo_finish_def respond_def)

lemma heygen_handler_without_url:
  assumes "heygen_normalize env req w = (Ok payload, w1)"
    and "heygen_submit env req payload w1 = (Ok videoId, w2)"
    and "heygen_pollUntilComplete (he_polls env) (to_str videoId)
           (default_to [] (h_heygen_api_key req)) heygen_maxWaitMs heygen_intervalMs w2
         = Some (Inr completed, n, w3)"
    and "opt_field completed ''status'' = JStr ''completed''"
    and "\<not> truthy (opt_field completed ''video_url'')"
  shows "heygen_handler env req w
         = Some (catch500 ''HeyGen returned completed status but no video_url.'', w3)"
  using assms by (simp add: heygen_handler_normalize heygen_finish_def respond_def)

text \<open>When the job names a video and the download is answered with a failure status, the
  run answers 500 with the download message and the body of that answer, after one request
  for the video.\<close>

lemma veo_handler_download_refused:
  assumes "veo_normalize env req w = (Ok payload, w1)"
    and "veo_submit env req payload w1 = (Ok operationName, w2)"
    and "veo_pollUntilComplete (ve_polls env) (to_str operationName)
           (default_to [] (v_gemini_api_key req)) veo_maxWaitMs veo_intervalMs w2
         = Some (Inr completed, n, w3)"
    and "\<not> truthy (opt_field completed ''error'')"
    and "truthy (veo_videoUri completed)"
    and "r_error (ve_video env) = None" and "\<not> r_ok (ve_video env)"
  shows "\<exists>w4. veo_handler env req w
           = Some (catch500 (''Failed to download video from Veo: '' @ r_body (ve_video env)), w4)
         \<and> trace w4 = trace w3 @ [(now w3, Fetch ''GET'' (to_str (veo_videoUri completed))
                                              (default_to [] (v_gemini_api_key req)) None)]
         \<and> storage w4 = storage w3"
  using assms
  by (simp add: veo_handler_normalize veo_finish_def respond_def fetch_def emit_def advance_def
        Let_def)

lemma heygen_handler_download_refused:
  assumes "heygen_normalize env req w = (Ok payload, w1)"
    and "heygen_submit env req payload w1 = (Ok videoId, w2)"
    and "heygen_pollUntilComplete (he_polls env) (to_str videoId)
           (default_to [] (h_heygen_api_key req)) heygen_maxWaitMs heygen_intervalMs w2
         = Some (Inr completed, n, w3)"
    and "opt_field completed ''status'' = JStr ''completed''"
    and "truthy (opt_field completed ''video_url'')"
    and "r_error (he_video env) = None" and "\<not> r_ok (he_video env)"
  shows "\<exists>w4. heygen_handler env req w
           = Some (catch500 (''Failed to download video from HeyGen: '' @ r_body (he_video env)), w4)
         \<and> trace w4 = trace w3 @ [(now w3, Fetch ''GET'' (to_str (opt_field completed ''video_url''))
                                              [] None)]
         \<and> storage w4 = storage w3"
  using assms
  by (simp add: heygen_handler_normalize heygen_finish_def respond_def fetch_def emit_def
        advance_def Let_def)

text \<open>The two answers differ, whatever the body of the refused download.\<close>

lemma no_locator_answer_differs:
  "catch500 ''Veo returned done=true but no video URI found.''
     \<noteq> catch500 (''Failed to download video from Veo: '' @ body)"
  "catch500 ''HeyGen returned completed status but no video_url.''
     \<noteq> catch500 (''Failed to download video from HeyGen: '' @ body)"
  by (simp_all add: catch500_def)

text \<open>Whole runs of the Veo handler: the finished operation names no video; the download
  is refused. Only the second run asks for the video.\<close>

lemma veo_no_uri_run:
  "veo_handler veo_env_no_uri veo_req_min start_world =
     Some (\<lparr>rs_status = 500,
            rs_body = [(''error'', JStr ''Veo returned done=true but no video URI found.'')]\<rparr>,
           \<lparr>now = 10000,
            trace = [(0, Fetch ''POST''
                          ''https://generativelanguage.googleapis.com/v1beta/models/veo-3.1-generate-preview:predictLongRunning''
                          ''g-key''
                          (Some \<lparr>vp_prompt = ''A lion in the savannah'', vp_image = None,
                                  vp_aspectRatio = ''16:9'', vp_resolution = ''720p'',
                                  vp_durationSeconds = ''8'', vp_personGeneration = ''allow_all'',
                                  vp_numberOfVideos = 1, vp_negativePrompt = None\<rparr>)),
                     (0, Sleep 10000),
                     (10000, Fetch ''GET''
                          ''https://generativelanguage.googleapis.com/v1beta/operations/abc123'' ''g-key'' None)],
            storage = []\<rparr>)"
  by code_simp

lemma veo_download_fails_run:
  "veo_handler veo_env_download_fails veo_req_min start_world =
     Some (\<lparr>rs_status = 500,
            rs_body = [(''error'', JStr ''Failed to download video from Veo: forbidden'')]\<rparr>,
           \<lparr>now = 10000,
            trace = [(0, Fetch ''POST''
                          ''https://generativelanguage.googleapis.com/v1beta/models/veo-3.1-generate-preview:predictLongRunning''
                          ''g-key''
                          (Some \<lparr>vp_prompt = ''A lion in the savannah'', vp_image = None,
                                  vp_aspectRatio = ''16:9'', vp_resolution = ''720p'',
                                  vp_durationSeconds = ''8'', vp_personGeneration = ''allow_all'',
                                  vp_numberOfVideos = 1, vp_negativePrompt = None\<rparr>)),
                     (0, Sleep 10000),
                     (10000, Fetch ''GET''
                          ''https://generativelanguage.googleapis.com/v1beta/operations/abc123'' ''g-key'' None),
                     (10000, Fetch ''GET'' ''https://files.example.com/v/1'' ''g-key'' None)],
            storage = []\<rparr>)"
  by code_simp

text \<open>A whole run of the HeyGen handler whose completed job has no \<open>video_url\<close>.\<close>

lemma heygen_no_url_run:
  "heygen_handler heygen_env_no_url heygen_req_min start_world =
     Some (\<lparr>rs_status = 500,
            rs_body = [(''error'', JStr ''HeyGen returned completed status but no video_url.'')]\<rparr>,
           \<lparr>now = 10000,
            trace = [(0, Fetch ''GET'' ''https://api.heygen.com/v2/avatars'' ''h-key'' None),
                     (0, Fetch ''GET'' ''https://api.heygen.com/v2/voices'' ''h-key'' None),
                     (0, Fetch ''POST'' ''https://api.heygen.com/v2/video/generate'' ''h-key''
                          (Some \<lparr>hp_title = ''Generated Video'', hp_avatar_id = JStr ''Anna'',
                                  hp_avatar_style = ''normal'', hp_input_text = ''Hello there'',
                                  hp_voice_id = JStr ''v-en'', hp_speed = 1,
                                  hp_background = ''#ffffff'', hp_width = 1280,
                                  hp_height = 720\<rparr>)),
                     (0, Sleep 10000),
                     (10000, Fetch ''GET''
                          ''https://api.heygen.com/v1/video_status.get?video_id=vid42'' ''h-key'' None)],
            storage = []\<rparr>)"
  by code_simp

text \<open>
  C6 fails on the Kling endpoint. The task has succeeded at the first status query and its
  one video entry has no \<open>url\<close>: \<open>pollTask\<close> only tests that the list of videos is not
  empty, returns \<open>videos[0].url\<close> unchecked, and the run answers 200 with
  \<open>success: true\<close> and an undefined \<open>video_url\<close> in place of an error.
\<close>

theorem kling_succeed_without_url_answers_success:
  "kling_handler kling_env_no_url kling_req_min start_world =
     Some (\<lparr>rs_status = 200,
            rs_body = [(''success'', JBool True), (''task_id'', JStr ''t1''),
                       (''mode'', JStr ''text-to-video''), (''model'', JStr ''kling-v1-6''),
                       (''video_url'', Undefined), (''cover_image_url'', JStr []),
                       (''duration'', JStr ''5''), (''prompt'', JStr ''A cat on a skateboard'')]\<rparr>,
           \<lparr>now = 10000,
            trace = [(0, Sign ''ak'' ''sk'' 0),
                     (0, Fetch ''POST'' ''https://api.klingai.com/v1/videos/text2video''
                           ''Bearer eyJhbGciOiJIUzI1NiIsInR5cCI6IkpXVCJ9.eyJpc3MiOiJhayIsImV4cCI6MTgwMCwibmJmIjotNX0.c2ln''
                           (Some \<lparr>kp_model_name = ''kling-v1-6'',
                                   kp_prompt = ''A cat on a skateboard'', kp_mode = ''std'',
                                   kp_duration = ''5'', kp_aspect_ratio = ''16:9'',
                                   kp_cfg_scale = 1 / 2, kp_negative_prompt = None,
                                   kp_image = None, kp_image_tail = None,
                                   kp_camera_control = None\<rparr>)),
                     (0, Sleep 10000),
                     (10000, Fetch ''GET'' ''https://api.klingai.com/v1/videos/text2video/t1''
                           ''Bearer eyJhbGciOiJIUzI1NiIsInR5cCI6IkpXVCJ9.eyJpc3MiOiJhayIsImV4cCI6MTgwMCwibmJmIjotNX0.c2ln''
                           None)],
            storage = []\<rparr>)"
  by code_simp

section \<open>The catalog fallback\<close>







lemma heygen_materialize_trace:
  "trace (snd (heygen_materialize env videoId bytes w)) = trace w"
  by (simp add: heygen_materialize_def split: prod.splits option.splits)








text \<open>A whole run with both catalogs down: two warnings, the fallbacks in the payload, and
  the run goes on to the stored video.\<close>

lemma heygen_catalog_down_run:
  "heygen_handler heygen_env_catalog_down heygen_req_min start_world =
     Some (\<lparr>rs_status = 200,
            rs_body = [(''success'', JBool True), (''video_id'', JStr ''vid42''),
                       (''avatar_id'', JStr ''Angela-inTshirt-20220820''),
                       (''voice_id'', JStr ''1bd001e7e50f421d891986aad5158bc8''),
                       (''dimension'', JObj [(''width'', JNum 1280), (''height'', JNum 720)]),
                       (''video_url'',
                        JStr ''https://xyz.supabase.co/storage/v1/object/public/heygen-videos/vid42.mp4'')]\<rparr>,
           \<lparr>now = 10000,
            trace = [(0, Fetch ''GET'' ''https://api.heygen.com/v2/avatars'' ''h-key'' None),
                     (0, Warn ''[heygen-video] Could not fetch avatar list (Error: Avatar list fetch failed), using fallback.''),
                     (0, Fetch ''GET'' ''https://api.heygen.com/v2/voices'' ''h-key'' None),
                     (0, Warn ''[heygen-video] Could not fetch voice list (Error: Voice list fetch failed), using fallback.''),
                     (0, Fetch ''POST'' ''https://api.heygen.com/v2/video/generate'' ''h-key''
                           (Some \<lparr>hp_title = ''Generated Video'',
                                   hp_avatar_id = JStr ''Angela-inTshirt-20220820'',
                                   hp_avatar_style = ''normal'', hp_input_text = ''Hello there'',
                                   hp_voice_id = JStr ''1bd001e7e50f421d891986aad5158bc8'',
                                   hp_speed = 1, hp_background = ''#ffffff'', hp_width = 1280,
                                   hp_height = 720\<rparr>)),
                     (0, Sleep 10000),
                     (10000, Fetch ''GET'' ''https://api.heygen.com/v1/video_status.get?video_id=vid42''
                           ''h-key'' None),
                     (10000, Fetch ''GET'' ''https://files.example.com/h/42'' [] None)],
            storage = [((''heygen-videos'', ''vid42.mp4''), ''mp4'')]\<rparr>)"
  by code_simp


section \<open>Submission\<close>

text \<open>What the claim says of a refused or malformed submission holds on the Veo endpoint:
  the handler answers with the provider's status and text, or with a 500 for an
  acceptance without a name, and the submission is the only call of the run.\<close>

lemma veo_submission_refused:
  assumes "veo_validate req = None" and "\<not> given (v_image_url req)"
    and "r_error (ve_create env) = None" and "\<not> r_ok (ve_create env)"
  shows "\<exists>w'. veo_handler env req w =
           Some (\<lparr>rs_status = r_status (ve_create env),
                  rs_body = [(''error'', JStr ''Veo job creation failed''),
                             (''details'', JStr (r_body (ve_create env)))]\<rparr>, w')
         \<and> new_events w w' =
             [(now w, Fetch ''POST''
                 (veo_BASE_URL @ ''/models/'' @ default_to ''veo-3.1-generate-preview'' (v_model req)
                    @ '':predictLongRunning'')
                 (default_to [] (v_gemini_api_key req)) (Some (veo_parameters req None)))]"
  using assms
  by (auto simp: veo_handler_def veo_build_payload_def veo_submit_def fetch_def emit_def advance_def
      given_def new_events_def Let_def split: option.splits)

lemma veo_submission_without_name:
  assumes "veo_validate req = None" and "\<not> given (v_image_url req)"
    and "r_error (ve_create env) = None" and "r_ok (ve_create env)"
    and "r_json (ve_create env) = Some createJson" and "\<not> truthy (opt_field createJson ''name'')"
  shows "\<exists>w'. veo_handler env req w =
           Some (\<lparr>rs_status = 500,
                  rs_body = [(''error'', JStr ''Veo did not return an operation name''),
                             (''raw'', createJson)]\<rparr>, w')
         \<and> new_events w w' =
             [(now w, Fetch ''POST''
                 (veo_BASE_URL @ ''/models/'' @ default_to ''veo-3.1-generate-preview'' (v_model req)
                    @ '':predictLongRunning'')
                 (default_to [] (v_gemini_api_key req)) (Some (veo_parameters req None)))]"
  using assms
  by (auto simp: veo_handler_def veo_build_payload_def veo_submit_def fetch_def emit_def advance_def
      given_def new_events_def read_json_def Let_def split: option.splits)

lemma sora_submission_refused:
  assumes "sora_validate req = None" and "\<not> given (s_input_reference_url req)"
    and "r_error (se_create env) = None" and "\<not> r_ok (se_create env)"
  shows "\<exists>w'. sora_handler env req w =
           Some (\<lparr>rs_status = r_status (se_create env),
                  rs_body = [(''error'', JStr ''Sora job creation failed''),
                             (''details'', JStr (r_body (se_create env)))]\<rparr>, w')
         \<and> new_events w w' =
             [(now w, Fetch ''POST'' ''https://api.openai.com/v1/videos''
                 (''Bearer '' @ default_to [] (s_openai_api_key req)) (Some (sora_fields req None)))]"
  using assms
  by (auto simp: sora_handler_def sora_build_form_def sora_submit_def fetch_def emit_def advance_def
      given_def new_events_def Let_def split: option.splits)

text \<open>
  C5 fails on the Sora endpoint. The provider accepts the submission with a body that has
  no \<open>id\<close>: the handler does not report a malformed acceptance; it sleeps and asks for
  the status of the job \<open>undefined\<close>, and the run ends with the error of that poll.
\<close>

theorem sora_polls_without_job_id:
  "sora_handler sora_env_no_id sora_req_min start_world =
     Some (\<lparr>rs_status = 500, rs_body = [(''error'', JStr ''Poll failed: no such video'')]\<rparr>,
           \<lparr>now = 10000,
            trace = [(0, Fetch ''POST'' ''https://api.openai.com/v1/videos'' ''Bearer sk-test''
                           (Some \<lparr>sf_model = ''sora-2'', sf_prompt = ''A cat on a skateboard'',
                                   sf_size = ''1280x720'', sf_seconds = ''5'',
                                   sf_input_reference = None\<rparr>)),
                     (0, Sleep 10000),
                     (10000, Fetch ''GET'' ''https://api.openai.com/v1/videos/undefined''
                           ''Bearer sk-test'' None)],
            storage = []\<rparr>)"
  by code_simp

section \<open>Cross-field validation\<close>

text \<open>What the claim says holds for the Veo constraint, and for a Kling request that states
  the mode \<open>std\<close> itself: a 400 response, and the world left as it was.\<close>

lemma veo_resolution_duration_rejected:
  assumes "default_to ''720p'' (v_resolution req) = ''1080p'' \<or> default_to ''720p'' (v_resolution req) = ''4k''"
    and "default_to ''8'' (v_duration_seconds req) \<noteq> ''8''"
  shows "\<exists>resp. veo_handler env req w = Some (resp, w) \<and> rs_status resp = 400"
  using assms by (auto simp: veo_handler_def veo_validate_def bad_request_def Let_def)

lemma kling_master_std_rejected:
  assumes "k_model_name body = Some ''kling-v2-1-master''" and "k_mode body = Some ''std''"
  shows "\<exists>resp. kling_handler env body w = Some (resp, w) \<and> rs_status resp = 400"
  using assms by (auto simp: kling_handler_def kling_validate_def bad_request_def)

text \<open>
  C4 fails on the Kling endpoint when the mode is left out. The request names the model
  \<open>kling-v2-1-master\<close> and no mode: validation lets it through, a token is signed, and
  the task is submitted with the default mode \<open>std\<close>.
\<close>

theorem kling_master_default_mode_submitted:
  "kling_validate kling_req_master = None
   \<and> kling_handler kling_env_reject kling_req_master start_world =
     Some (\<lparr>rs_status = 500,
            rs_body = [(''error'',
                        JStr ''Kling task creation failed (400): mode std is not supported by this model'')]\<rparr>,
           \<lparr>now = 0,
            trace = [(0, Sign ''ak'' ''sk'' 0),
                     (0, Fetch ''POST'' ''https://api.klingai.com/v1/videos/text2video''
                           ''Bearer eyJhbGciOiJIUzI1NiIsInR5cCI6IkpXVCJ9.eyJpc3MiOiJhayIsImV4cCI6MTgwMCwibmJmIjotNX0.c2ln''
                           (Some \<lparr>kp_model_name = ''kling-v2-1-master'',
                                   kp_prompt = ''A cat on a skateboard'', kp_mode = ''std'',
                                   kp_duration = ''5'', kp_aspect_ratio = ''16:9'',
                                   kp_cfg_scale = 1 / 2, kp_negative_prompt = None,
                                   kp_image = None, kp_image_tail = None,
                                   kp_camera_control = None\<rparr>))],
            storage = []\<rparr>)"
  by code_simp

section \<open>The credential during the poll\<close>

text \<open>The test of \<open>pollWithJwtRefresh\<close> compares the clock with a time 25 minutes after
  the same reading of the clock: it is never true, and the token the handler signed before
  the submission is the one \<open>pollTask\<close> gets.\<close>

lemma pollWithJwtRefresh_keeps_token:
  "pollWithJwtRefresh env body jwt taskId w =
     pollTask (ke_polls env) taskId jwt (given (k_image_url body)) kling_maxWaitMs kling_intervalMs w"
  by (simp add: pollWithJwtRefresh_def Let_def)

text \<open>Every status query of \<open>pollTask\<close> carries the token it was called with.\<close>

lemma pollTask_one_token:
  assumes "pollTask resps taskId jwt isImageToVideo maxWaitMs intervalMs w = Some (out, n, w')"
  shows "\<exists>es. trace w' = trace w @ es
           \<and> list_all (poll_event (kling_poll_url isImageToVideo taskId) (''Bearer '' @ jwt)) es"
  using pollLoop_extends [OF assms [unfolded pollTask_def poll_def]] by auto

text \<open>A token signed at least a second later expires strictly later.\<close>

lemma later_token_expires_later:
  assumes "earlier + 1000 \<le> later"
  shows "\<exists>e1 e2. opt_field (jwt_payload accessKey (earlier div 1000)) ''exp'' = JNum e1
           \<and> opt_field (jwt_payload accessKey (later div 1000)) ''exp'' = JNum e2 \<and> e1 < e2"
proof -
  have "(earlier + 1000) div 1000 \<le> later div 1000"
    using assms by (intro zdiv_mono1) simp_all
  moreover have "(earlier + 1000) div 1000 = earlier div 1000 + 1"
    by simp
  ultimately have "earlier div 1000 < later div 1000"
    by linarith
  then show ?thesis by (simp add: jwt_payload_def)
qed

text \<open>
  C1 fails. The provider answers the task creation 1495 s after the token was signed (at
  second 0, so that it expires at second 1800). The handler then checks once whether to
  refresh, against a time 25 minutes later than that check, and enters the loop: the two
  status queries, at 1505 s and 1515 s, carry the first token with 295 s and 285 s of its
  life left, less than the margin of 300 s. No other token is signed in the run.
\<close>

theorem kling_poll_uses_expiring_token:
  "kling_handler kling_env_slow kling_req_min start_world =
     Some (\<lparr>rs_status = 200,
            rs_body = [(''success'', JBool True), (''task_id'', JStr ''t1''),
                       (''mode'', JStr ''text-to-video''), (''model'', JStr ''kling-v1-6''),
                       (''video_url'', JStr ''https://cdn.example.com/t1.mp4''),
                       (''cover_image_url'', JStr []), (''duration'', JStr ''5''),
                       (''prompt'', JStr ''A cat on a skateboard'')]\<rparr>,
           \<lparr>now = 1515000,
            trace = [(0, Sign ''ak'' ''sk'' 0),
                     (0, Fetch ''POST'' ''https://api.klingai.com/v1/videos/text2video''
                           (''Bearer '' @ generateJWT (\<lambda>k m. ''sig'') ''ak'' ''sk'' 0)
                           (Some \<lparr>kp_model_name = ''kling-v1-6'',
                                   kp_prompt = ''A cat on a skateboard'', kp_mode = ''std'',
                                   kp_duration = ''5'', kp_aspect_ratio = ''16:9'',
                                   kp_cfg_scale = 1 / 2, kp_negative_prompt = None,
                                   kp_image = None, kp_image_tail = None,
                                   kp_camera_control = None\<rparr>)),
                     (1495000, Sleep 10000),
                     (1505000, Fetch ''GET'' ''https://api.klingai.com/v1/videos/text2video/t1''
                           (''Bearer '' @ generateJWT (\<lambda>k m. ''sig'') ''ak'' ''sk'' 0) None),
                     (1505000, Sleep 10000),
                     (1515000, Fetch ''GET'' ''https://api.klingai.com/v1/videos/text2video/t1''
                           (''Bearer '' @ generateJWT (\<lambda>k m. ''sig'') ''ak'' ''sk'' 0) None)],
            storage = []\<rparr>)
   \<and> opt_field (jwt_payload ''ak'' (0 div 1000)) ''exp'' = JNum 1800
   \<and> (1800 :: int) - 1505000 div 1000 < 300"
  by code_simp

end
